theory Spec2Isabelle
  imports Complex_Main "HOL-Library.Sublist"
begin

section \<open>Host objects: values, sockets, nodes\<close>

text \<open>
  The add-on works on Blender's node objects. A socket value (Python \<open>Any\<close>) is a
  number (\<open>True\<close> is the number 1), a sequence of numbers (colour, vector) or some
  other object, which has no length and cannot be compared with a number. A socket has a
  display name, an identifier and, when it has the attribute, a \<open>default_value\<close>.
  \<open>assign_error\<close> is the host's rule for an assignment to \<open>default_value\<close>: the
  exception the assignment of a value raises, or \<open>None\<close> when the host takes the value.
  A node has its sockets, the attributes \<open>attrs\<close> that were assigned, and in
  \<open>setattr_error\<close> the host's rule for \<open>setattr\<close>, read the same way. Which exceptions
  are caught is the business of each place that assigns.
\<close>

datatype pyval = Num real | Seq "real list" | Obj string

datatype error = TypeError | AttributeError | ValueError | IndexError | KeyError | RuntimeError

record socket =
  sock_name :: string
  sock_identifier :: string
  default_value :: "pyval option"
  assign_error :: "pyval \<Rightarrow> error option"

record node =
  nd_name :: string
  bl_idname :: string
  label :: string
  location :: "real \<times> real"
  inputs :: "socket list"
  outputs :: "socket list"
  attrs :: "(string \<times> pyval) list"
  setattr_error :: "string \<Rightarrow> pyval \<Rightarrow> error option"

section \<open>node_registry.py: socket resolution\<close>

text \<open>Position of the first element with a property: what a search loop over a socket
  collection returns, the socket being named by its index in the collection.\<close>

primrec first_index :: "('a \<Rightarrow> bool) \<Rightarrow> 'a list \<Rightarrow> nat option" where
  "first_index P [] = None"
| "first_index P (x # xs) = (if P x then Some 0 else map_option Suc (first_index P xs))"

text \<open>\<open>collection.get(name)\<close>: the first socket with that name, or \<open>None\<close>.\<close>

definition coll_get :: "socket list \<Rightarrow> string \<Rightarrow> nat option" where
  "coll_get coll name = first_index (\<lambda>s. sock_name s = name) coll"

text \<open>\<open>str.lower()\<close> on ASCII letters (a \<open>char\<close> is a byte).\<close>

definition lower_char :: "char \<Rightarrow> char" where
  "lower_char c =
     (case map_of (zip ''ABCDEFGHIJKLMNOPQRSTUVWXYZ'' ''abcdefghijklmnopqrstuvwxyz'') c of
        Some d \<Rightarrow> d
      | None \<Rightarrow> c)"

definition lower :: "string \<Rightarrow> string" where
  "lower s = map lower_char s"

text \<open>Python's \<open>a in b\<close> on strings.\<close>

fun is_substring :: "string \<Rightarrow> string \<Rightarrow> bool" where
  "is_substring xs [] = (xs = [])"
| "is_substring xs (y # ys) = (prefix xs (y # ys) \<or> is_substring xs ys)"

definition find_socket_case_insensitive :: "socket list \<Rightarrow> string \<Rightarrow> nat option" where
  "find_socket_case_insensitive coll name =
     (let target = lower name in first_index (\<lambda>sock. lower (sock_name sock) = target) coll)"

definition find_socket_substring :: "socket list \<Rightarrow> string \<Rightarrow> nat option" where
  "find_socket_substring coll name =
     (let target = lower name
      in first_index (\<lambda>sock. let sock_lower = lower (sock_name sock)
                             in is_substring target sock_lower \<or> is_substring sock_lower target) coll)"

text \<open>\<open>for cand in candidates: sock = f(cand); if sock is not None: return sock\<close>.\<close>

primrec first_candidate :: "(string \<Rightarrow> nat option) \<Rightarrow> string list \<Rightarrow> nat option" where
  "first_candidate f [] = None"
| "first_candidate f (cand # cands) =
     (case f cand of Some sock \<Rightarrow> Some sock | None \<Rightarrow> first_candidate f cands)"

text \<open>One strategy after the other: the first that returns a socket decides.\<close>

definition or_else :: "'a option \<Rightarrow> 'a option \<Rightarrow> 'a option" where
  "or_else a b = (case a of Some x \<Rightarrow> Some x | None \<Rightarrow> b)"

text \<open>The registry tables \<open>INPUT_MAP\<close> and \<open>OUTPUT_MAP\<close> (source node type, then source
  socket name, to the ordered target socket names) are a parameter of the resolvers.\<close>

type_synonym socket_map = "string \<rightharpoonup> (string \<rightharpoonup> string list)"

definition type_map_of :: "socket_map \<Rightarrow> string \<Rightarrow> (string \<rightharpoonup> string list)" where
  "type_map_of m cycles_type = (case m cycles_type of None \<Rightarrow> Map.empty | Some tm \<Rightarrow> tm)"

definition candidates_of :: "(string \<rightharpoonup> string list) \<Rightarrow> string \<Rightarrow> string list" where
  "candidates_of type_map key = (case type_map key of None \<Rightarrow> [] | Some cs \<Rightarrow> cs)"

definition resolve_input_socket ::
  "socket_map \<Rightarrow> string \<Rightarrow> string \<Rightarrow> node \<Rightarrow> string \<Rightarrow> int \<Rightarrow> nat option" where
  "resolve_input_socket INPUT_MAP cycles_type cycles_socket_name octane_node
       socket_identifier socket_index =
     (let type_map = type_map_of INPUT_MAP cycles_type;
          candidates = candidates_of type_map cycles_socket_name;
          ins = inputs octane_node
      in or_else (first_candidate (coll_get ins) candidates)
        (or_else (if socket_identifier \<noteq> [] \<and> socket_identifier \<noteq> cycles_socket_name
                  then first_candidate (coll_get ins) (candidates_of type_map socket_identifier)
                  else None)
        (or_else (coll_get ins cycles_socket_name)
        (or_else (first_candidate (find_socket_case_insensitive ins) candidates)
        (or_else (find_socket_case_insensitive ins cycles_socket_name)
        (or_else (find_socket_substring ins cycles_socket_name)
          (if 0 \<le> socket_index \<and> socket_index < int (length ins)
           then Some (nat socket_index) else None)))))))"



section \<open>shader_detection.py: the analysis snapshot\<close>

text \<open>A Python \<open>dict\<close> keeps insertion order: it is an association list with distinct
  keys. Assigning to an existing key keeps the key's place.\<close>

type_synonym ('k, 'v) dict = "('k \<times> 'v) list"

definition dict_set :: "('k, 'v) dict \<Rightarrow> 'k \<Rightarrow> 'v \<Rightarrow> ('k, 'v) dict" where
  "dict_set d k v =
     (if map_of d k = None then d @ [(k, v)]
      else map (\<lambda>(k', v'). if k' = k then (k', v) else (k', v')) d)"

record NodeInfo =
  info_name :: string
  info_bl_idname :: string
  info_label :: string
  info_location :: "real \<times> real"
  info_inputs :: "(string, pyval option) dict"
  info_outputs :: "(string, pyval option) dict"
  info_properties :: "(string, pyval) dict"
  input_identifiers :: "(string, string) dict"
  output_identifiers :: "(string, string) dict"

record LinkInfo =
  from_node :: string
  from_socket :: string
  to_node :: string
  to_socket :: string
  from_socket_identifier :: string
  to_socket_identifier :: string
  to_socket_index :: int

record TreeAnalysis =
  nodes :: "(string, NodeInfo) dict"
  links :: "LinkInfo list"
  has_glass :: bool
  has_emission :: bool
  has_volume :: bool
  has_alpha :: bool
  has_bump :: bool
  has_normal_map :: bool
  has_sss :: bool
  has_displacement :: bool
  transmission_weight :: real


section \<open>graph_engine.py: the conversion schedule\<close>

text \<open>
  \<open>_deps\<close> maps a node name to the set of its upstream node names. A Python \<open>set\<close> is
  kept as a duplicate-free list; the order in which a \<open>for\<close> loop runs through a set is
  not fixed by the language, so it is the parameter \<open>iter_order\<close> of the traversal.
\<close>

type_synonym deps = "(string, string list) dict"

definition setdefault :: "deps \<Rightarrow> string \<Rightarrow> deps" where
  "setdefault d k = (if map_of d k = None then d @ [(k, [])] else d)"

definition set_add :: "deps \<Rightarrow> string \<Rightarrow> string \<Rightarrow> deps" where
  "set_add d k v = map (\<lambda>(k', vs). if k' = k then (k', List.insert v vs) else (k', vs)) d"

definition add_link :: "LinkInfo \<Rightarrow> deps \<Rightarrow> deps" where
  "add_link link d =
     setdefault (set_add (setdefault d (to_node link)) (to_node link) (from_node link))
       (from_node link)"

definition build_dependency_graph :: "TreeAnalysis \<Rightarrow> deps" where
  "build_dependency_graph a =
     fold add_link (links a) (fold (\<lambda>node_name d. setdefault d node_name) (map fst (nodes a)) [])"

text \<open>\<open>self._deps.get(node_name, set())\<close>.\<close>

definition deps_get :: "deps \<Rightarrow> string \<Rightarrow> string list" where
  "deps_get d node_name = (case map_of d node_name of None \<Rightarrow> [] | Some vs \<Rightarrow> vs)"

record engine_state =
  visited :: "string set"
  schedule :: "string list"

text \<open>Every name the traversal can meet below its starting nodes.\<close>

definition reach_names :: "(string list \<Rightarrow> string list) \<Rightarrow> deps \<Rightarrow> string set" where
  "reach_names iter_order d = (\<Union>vs \<in> insert [] (snd ` set d). set (iter_order vs))"

text \<open>\<open>_visit\<close>, and the loop \<open>for dep in ...: self._visit(dep)\<close> in its body. The
  interpreter's bound on the recursion depth is not modelled.\<close>

function visit :: "(string list \<Rightarrow> string list) \<Rightarrow> deps \<Rightarrow> string \<Rightarrow> engine_state \<Rightarrow> engine_state"
  and visit_each :: "(string list \<Rightarrow> string list) \<Rightarrow> deps \<Rightarrow> string list \<Rightarrow> engine_state \<Rightarrow> engine_state"
where
  "visit iter_order d node_name s =
     (if node_name \<in> visited s then s
      else (let s1 = s\<lparr>visited := insert node_name (visited s)\<rparr>;
                s2 = visit_each iter_order d (iter_order (deps_get d node_name)) s1
            in s2\<lparr>schedule := schedule s2 @ [node_name]\<rparr>))"
| "visit_each iter_order d [] s = s"
| "visit_each iter_order d (dep # rest) s =
     visit_each iter_order d rest (visit iter_order d dep s)"
  by pat_completeness auto

text \<open>The traversal ends: a node enters \<open>visited\<close> before its dependencies are
  walked, and only finitely many names can be met.\<close>

lemma visit_dom_mono:
  "visit_visit_each_dom (Inl (it, d, n, s)) \<Longrightarrow> visited s \<subseteq> visited (visit it d n s)"
  "visit_visit_each_dom (Inr (it, d, ns, s)) \<Longrightarrow> visited s \<subseteq> visited (visit_each it d ns s)"
proof (induction it d n s and it d ns s rule: visit_visit_each.pinduct)
  case (1 it d n s)
  then show ?case
    by (auto simp: visit.psimps Let_def)
next
  case (2 it d s)
  then show ?case by (simp add: visit_each.psimps)
next
  case (3 it d dep rest s)
  then show ?case by (auto simp: visit_each.psimps)
qed

lemma finite_reach_names: "finite (reach_names it d)"
  by (simp add: reach_names_def)

lemma deps_get_reach: "set (it (deps_get d n)) \<subseteq> reach_names it d"
  unfolding reach_names_def deps_get_def
  by (auto split: option.splits dest!: map_of_SomeD)

termination visit
proof (relation "inv_image (less_than <*lex*> less_than)
    (\<lambda>x. case x of
       Inl (it, d, n, s) \<Rightarrow> (card (insert n (reach_names it d) - visited s), 0::nat)
     | Inr (it, d, ns, s) \<Rightarrow> (card ((set ns \<union> reach_names it d) - visited s), Suc (length ns)))")
  show "wf (inv_image (less_than <*lex*> less_than)
    (\<lambda>x. case x of
       Inl (it, d, n, s) \<Rightarrow> (card (insert n (reach_names it d) - visited s), 0::nat)
     | Inr (it, d, ns, s) \<Rightarrow> (card ((set ns \<union> reach_names it d) - visited s), Suc (length ns))))"
    by (intro wf_inv_image wf_lex_prod wf_less_than)
next
  fix it d n s s1
  assume n: "n \<notin> visited s" and s1: "s1 = s\<lparr>visited := insert n (visited s)\<rparr>"
  have sub: "set (it (deps_get d n)) \<union> reach_names it d = reach_names it d"
    using deps_get_reach [of it d n] by blast
  have "reach_names it d - visited s1 \<subset> insert n (reach_names it d) - visited s"
    using n s1 by auto
  then have "card (reach_names it d - visited s1) < card (insert n (reach_names it d) - visited s)"
    by (intro psubset_card_mono) (simp_all add: finite_reach_names)
  then show "(Inr (it, d, it (deps_get d n), s1), Inl (it, d, n, s))
     \<in> inv_image (less_than <*lex*> less_than)
    (\<lambda>x. case x of
       Inl (it, d, n, s) \<Rightarrow> (card (insert n (reach_names it d) - visited s), 0::nat)
     | Inr (it, d, ns, s) \<Rightarrow> (card ((set ns \<union> reach_names it d) - visited s), Suc (length ns)))"
    by (simp add: sub)
next
  fix it d dep rest s
  have "insert dep (reach_names it d) - visited s \<subseteq> (set (dep # rest) \<union> reach_names it d) - visited s"
    by auto
  then have "card (insert dep (reach_names it d) - visited s) \<le> card ((set (dep # rest) \<union> reach_names it d) - visited s)"
    by (intro card_mono) (simp_all add: finite_reach_names)
  then show "(Inl (it, d, dep, s), Inr (it, d, dep # rest, s))
     \<in> inv_image (less_than <*lex*> less_than)
    (\<lambda>x. case x of
       Inl (it, d, n, s) \<Rightarrow> (card (insert n (reach_names it d) - visited s), 0::nat)
     | Inr (it, d, ns, s) \<Rightarrow> (card ((set ns \<union> reach_names it d) - visited s), Suc (length ns)))"
    by auto
next
  fix it d dep rest s
  assume dom: "visit_visit_each_dom (Inl (it, d, dep, s))"
  from visit_dom_mono(1) [OF dom] have m: "visited s \<subseteq> visited (visit it d dep s)" .
  have "(set rest \<union> reach_names it d) - visited (visit it d dep s) \<subseteq> (set (dep # rest) \<union> reach_names it d) - visited s"
    using m by auto
  then have "card ((set rest \<union> reach_names it d) - visited (visit it d dep s)) \<le> card ((set (dep # rest) \<union> reach_names it d) - visited s)"
    by (intro card_mono) (simp_all add: finite_reach_names)
  then show "(Inr (it, d, rest, visit it d dep s), Inr (it, d, dep # rest, s))
     \<in> inv_image (less_than <*lex*> less_than)
    (\<lambda>x. case x of
       Inl (it, d, n, s) \<Rightarrow> (card (insert n (reach_names it d) - visited s), 0::nat)
     | Inr (it, d, ns, s) \<Rightarrow> (card ((set ns \<union> reach_names it d) - visited s), Suc (length ns)))"
    by auto
qed


declare visit.simps [simp del]

text \<open>\<open>compute_schedule\<close>: start at the output nodes or, without any, at every node.\<close>

definition compute_schedule :: "(string list \<Rightarrow> string list) \<Rightarrow> TreeAnalysis \<Rightarrow> string list" where
  "compute_schedule iter_order a =
     (let d = build_dependency_graph a;
          s0 = \<lparr>visited = {}, schedule = []\<rparr>;
          output_nodes = map fst (filter (\<lambda>(name, info).
              info_bl_idname info = ''ShaderNodeOutputMaterial'') (nodes a));
          s = (if output_nodes = []
               then fold (visit iter_order d) (map fst (nodes a)) s0
               else fold (visit iter_order d) output_nodes s0)
      in schedule s)"

text \<open>Notions for stating the schedule's properties: the dependency relation of
  \<open>_deps\<close> (upstream node, consumer), the nodes entered but not yet scheduled, and one
  name standing before another in a list.\<close>

definition dep_rel :: "deps \<Rightarrow> (string \<times> string) set" where
  "dep_rel d = {(m, x). m \<in> set (deps_get d x)}"

definition gray :: "engine_state \<Rightarrow> string set" where
  "gray s = visited s - set (schedule s)"

definition precedes :: "string list \<Rightarrow> string \<Rightarrow> string \<Rightarrow> bool" where
  "precedes S m x \<longleftrightarrow> (\<exists>S1 S2. S = S1 @ x # S2 \<and> m \<in> set S1)"

definition sched_inv :: "deps \<Rightarrow> engine_state \<Rightarrow> bool" where
  "sched_inv d s \<longleftrightarrow>
     distinct (schedule s) \<and> set (schedule s) \<subseteq> visited s \<and>
     (\<forall>x \<in> set (schedule s). \<forall>m \<in> set (deps_get d x). precedes (schedule s) m x)"


section \<open>shader_detection.py: the node walk of analyze_tree\<close>

definition TRANSPARENT_TYPES :: "string list" where
  "TRANSPARENT_TYPES =
     [''ShaderNodeSeparateColor'', ''ShaderNodeSeparateRGB'', ''ShaderNodeSeparateXYZ'',
      ''ShaderNodeCombineColor'', ''ShaderNodeCombineRGB'', ''ShaderNodeCombineXYZ'',
      ''ShaderNodeNewGeometry'', ''ShaderNodeLightPath'']"

text \<open>\<open>TreeAnalysis()\<close>: the dataclass's defaults.\<close>

definition empty_analysis :: TreeAnalysis where
  "empty_analysis =
     \<lparr>nodes = [], links = [], has_glass = False, has_emission = False, has_volume = False,
      has_alpha = False, has_bump = False, has_normal_map = False, has_sss = False,
      has_displacement = False, transmission_weight = 0\<rparr>"

text \<open>\<open>_snapshot_default\<close>: \<open>None\<close> without the attribute, else the value (a sequence as
  a tuple).\<close>

definition snapshot_default :: "socket \<Rightarrow> pyval option" where
  "snapshot_default sock = default_value sock"

text \<open>The \<open>NodeInfo\<close> of a node: both socket dictionaries are keyed by identifier. The
  properties come from \<open>_snapshot_properties\<close>, a parameter here.\<close>

definition snapshot_sockets :: "socket list \<Rightarrow> (string, pyval option) dict" where
  "snapshot_sockets socks =
     fold (\<lambda>sock d. dict_set d (sock_identifier sock) (snapshot_default sock)) socks []"

definition snapshot_identifiers :: "socket list \<Rightarrow> (string, string) dict" where
  "snapshot_identifiers socks =
     fold (\<lambda>sock d. dict_set d (sock_identifier sock) (sock_name sock)) socks []"

definition snapshot_node :: "(node \<Rightarrow> (string, pyval) dict) \<Rightarrow> node \<Rightarrow> NodeInfo" where
  "snapshot_node snapshot_properties n =
     \<lparr>info_name = nd_name n, info_bl_idname = bl_idname n,
      info_label = (if label n \<noteq> [] then label n else nd_name n),
      info_location = location n,
      info_inputs = snapshot_sockets (inputs n),
      info_outputs = snapshot_sockets (outputs n),
      info_properties = snapshot_properties n,
      input_identifiers = snapshot_identifiers (inputs n),
      output_identifiers = snapshot_identifiers (outputs n)\<rparr>"

text \<open>\<open>getattr(sock, "default_value", dflt)\<close>.\<close>

definition getattr_default_value :: "socket \<Rightarrow> pyval option \<Rightarrow> pyval option" where
  "getattr_default_value sock dflt = (case default_value sock of Some v \<Rightarrow> Some v | None \<Rightarrow> dflt)"

text \<open>\<open>v > r\<close> for a socket value and a float: comparing anything but a number raises.\<close>

definition py_gt :: "pyval option \<Rightarrow> real \<Rightarrow> error + bool" where
  "py_gt v r = (case v of Some (Num x) \<Rightarrow> Inr (r < x) | _ \<Rightarrow> Inl TypeError)"

text \<open>\<open>any(c > 0.0 for c in tuple(v)[:3])\<close>: raises unless \<open>v\<close> is a sequence.\<close>

definition any_positive3 :: "pyval \<Rightarrow> error + bool" where
  "any_positive3 v = (case v of Seq cs \<Rightarrow> Inr (\<exists>c \<in> set (take 3 cs). 0 < c) | _ \<Rightarrow> Inl TypeError)"

text \<open>The pattern detection for a principled node, in the order of the source: the
  transmission weight, the emission colour (the emission strength socket is looked up
  and not used), the subsurface weight.\<close>

definition input_get2 :: "node \<Rightarrow> string \<Rightarrow> string \<Rightarrow> nat option" where
  "input_get2 n name1 name2 = or_else (coll_get (inputs n) name1) (coll_get (inputs n) name2)"

definition detect_transmission :: "node \<Rightarrow> TreeAnalysis \<Rightarrow> error + TreeAnalysis" where
  "detect_transmission n a =
     (case input_get2 n ''Transmission Weight'' ''Transmission'' of
        None \<Rightarrow> Inr a
      | Some i \<Rightarrow>
          (let tw = getattr_default_value (inputs n ! i) (Some (Num 0))
           in case py_gt tw (1/2) of
                Inl e \<Rightarrow> Inl e
              | Inr True \<Rightarrow> Inr (a\<lparr>has_glass := True,
                                   transmission_weight := (case tw of Some (Num x) \<Rightarrow> x | _ \<Rightarrow> 0)\<rparr>)
              | Inr False \<Rightarrow> Inr a))"

definition detect_emission :: "node \<Rightarrow> TreeAnalysis \<Rightarrow> error + TreeAnalysis" where
  "detect_emission n a =
     (let em_input = coll_get (inputs n) ''Emission Color'';
          em_str = coll_get (inputs n) ''Emission Strength''
      in case em_input of
           None \<Rightarrow> Inr a
         | Some i \<Rightarrow>
             (case getattr_default_value (inputs n ! i) None of
                None \<Rightarrow> Inr a
              | Some em_col \<Rightarrow>
                  (case any_positive3 em_col of
                     Inl e \<Rightarrow> Inl e
                   | Inr True \<Rightarrow> Inr (a\<lparr>has_emission := True\<rparr>)
                   | Inr False \<Rightarrow> Inr a)))"

definition detect_subsurface :: "node \<Rightarrow> TreeAnalysis \<Rightarrow> error + TreeAnalysis" where
  "detect_subsurface n a =
     (case input_get2 n ''Subsurface Weight'' ''Subsurface'' of
        None \<Rightarrow> Inr a
      | Some i \<Rightarrow>
          (case py_gt (getattr_default_value (inputs n ! i) (Some (Num 0))) 0 of
             Inl e \<Rightarrow> Inl e
           | Inr True \<Rightarrow> Inr (a\<lparr>has_sss := True\<rparr>)
           | Inr False \<Rightarrow> Inr a))"

definition detect_principled :: "node \<Rightarrow> TreeAnalysis \<Rightarrow> error + TreeAnalysis" where
  "detect_principled n a =
     (case detect_transmission n a of
        Inl e \<Rightarrow> Inl e
      | Inr a1 \<Rightarrow>
          (case detect_emission n a1 of
             Inl e \<Rightarrow> Inl e
           | Inr a2 \<Rightarrow> detect_subsurface n a2))"

text \<open>The flags that depend on the node type alone.\<close>

definition detect_by_type :: "string \<Rightarrow> TreeAnalysis \<Rightarrow> TreeAnalysis" where
  "detect_by_type bid a =
     (let a1 = (if bid = ''ShaderNodeEmission'' then a\<lparr>has_emission := True\<rparr> else a);
          a2 = (if bid = ''ShaderNodeBlackbody'' then a1\<lparr>has_emission := True\<rparr> else a1);
          a3 = (if bid \<in> set [''ShaderNodeVolumeAbsorption'', ''ShaderNodeVolumeScatter'',
                               ''ShaderNodeVolumePrincipled'']
                then a2\<lparr>has_volume := True\<rparr> else a2);
          a4 = (if bid = ''ShaderNodeBump'' then a3\<lparr>has_bump := True\<rparr> else a3);
          a5 = (if bid = ''ShaderNodeNormalMap'' then a4\<lparr>has_normal_map := True\<rparr> else a4);
          a6 = (if bid \<in> set [''ShaderNodeDisplacement'', ''ShaderNodeVectorDisplacement'']
                then a5\<lparr>has_displacement := True\<rparr> else a5)
      in if bid = ''ShaderNodeSubsurfaceScattering'' then a6\<lparr>has_sss := True\<rparr> else a6)"

definition detect_patterns :: "node \<Rightarrow> TreeAnalysis \<Rightarrow> error + TreeAnalysis" where
  "detect_patterns n a =
     (let bid = bl_idname n;
          a1 = (if bid = ''ShaderNodeBsdfGlass'' then a\<lparr>has_glass := True\<rparr> else a)
      in case (if bid = ''ShaderNodeBsdfPrincipled'' then detect_principled n a1 else Inr a1) of
           Inl e \<Rightarrow> Inl e
         | Inr a2 \<Rightarrow> Inr (detect_by_type bid a2))"

text \<open>The first loop of \<open>analyze_tree\<close>: frames, reroutes and transparent nodes are
  passed over, every other node is snapshotted and its patterns detected. The second loop
  (the links) appends to \<open>links\<close> and sets \<open>has_alpha\<close>, nothing else.\<close>

fun analyze_nodes ::
  "(node \<Rightarrow> (string, pyval) dict) \<Rightarrow> node list \<Rightarrow> TreeAnalysis \<Rightarrow> error + TreeAnalysis" where
  "analyze_nodes sp [] a = Inr a"
| "analyze_nodes sp (n # ns) a =
     (if bl_idname n = ''NodeFrame'' \<or> bl_idname n = ''NodeReroute''
         \<or> bl_idname n \<in> set TRANSPARENT_TYPES
      then analyze_nodes sp ns a
      else (case detect_patterns n
                   (a\<lparr>nodes := dict_set (nodes a) (nd_name n) (snapshot_node sp n)\<rparr>) of
              Inl e \<Rightarrow> Inl e
            | Inr a' \<Rightarrow> analyze_nodes sp ns a'))"


section \<open>property_mapper.py: the principled rule\<close>

text \<open>\<open>_set_input\<close>: the first candidate name that names a socket with a
  \<open>default_value\<close> which takes the value is assigned. An assignment that raises
  \<open>TypeError\<close> or \<open>AttributeError\<close> goes on to the next candidate; any other exception
  leaves the function.\<close>

fun set_input :: "node \<Rightarrow> string list \<Rightarrow> pyval \<Rightarrow> error + (node \<times> bool)" where
  "set_input nd [] v = Inr (nd, False)"
| "set_input nd (name # rest) v =
     (case coll_get (inputs nd) name of
        None \<Rightarrow> set_input nd rest v
      | Some i \<Rightarrow>
          (let inp = inputs nd ! i
           in if default_value inp = None then set_input nd rest v
              else (case assign_error inp v of
                      None \<Rightarrow>
                        Inr (nd\<lparr>inputs := (inputs nd)[i := inp\<lparr>default_value := Some v\<rparr>]\<rparr>, True)
                    | Some e \<Rightarrow>
                        if e = TypeError \<or> e = AttributeError then set_input nd rest v
                        else Inl e)))"

declare set_input.simps [simp del]

text \<open>\<open>_set_prop\<close>: \<open>setattr\<close>, with \<open>AttributeError\<close> and \<open>TypeError\<close> caught.\<close>

definition set_prop :: "node \<Rightarrow> string \<Rightarrow> pyval \<Rightarrow> error + (node \<times> bool)" where
  "set_prop nd attr v =
     (case setattr_error nd attr v of
        None \<Rightarrow> Inr (nd\<lparr>attrs := dict_set (attrs nd) attr v\<rparr>, True)
      | Some e \<Rightarrow> if e = AttributeError \<or> e = TypeError then Inr (nd, False) else Inl e)"

text \<open>
  A rule is a sequence of statements on the target node. A statement gives the node as it
  has become and the exception it raised, if any; an exception ends the sequence, and the
  node keeps what was written before. \<open>write_input\<close> and \<open>put_prop\<close> are the two calls
  used as statements, their result dropped.
\<close>

definition then_do ::
  "error option \<times> node \<Rightarrow> (node \<Rightarrow> error option \<times> node) \<Rightarrow> error option \<times> node" where
  "then_do r f = (case fst r of None \<Rightarrow> f (snd r) | Some e \<Rightarrow> r)"

fun do_each ::
  "('a \<Rightarrow> node \<Rightarrow> error option \<times> node) \<Rightarrow> 'a list \<Rightarrow> node \<Rightarrow> error option \<times> node" where
  "do_each f [] nd = (None, nd)"
| "do_each f (x # xs) nd = then_do (f x nd) (do_each f xs)"

definition write_input :: "node \<Rightarrow> string list \<Rightarrow> pyval \<Rightarrow> error option \<times> node" where
  "write_input nd candidates v =
     (case set_input nd candidates v of
        Inl e \<Rightarrow> (Some e, nd)
      | Inr res \<Rightarrow> (None, fst res))"

definition put_prop :: "node \<Rightarrow> string \<Rightarrow> pyval \<Rightarrow> error option \<times> node" where
  "put_prop nd attr v =
     (case set_prop nd attr v of
        Inl e \<Rightarrow> (Some e, nd)
      | Inr res \<Rightarrow> (None, fst res))"

text \<open>\<open>d.get(key)\<close> on a dictionary whose values may be \<open>None\<close>.\<close>

definition dict_get :: "(string, pyval option) dict \<Rightarrow> string \<Rightarrow> pyval option" where
  "dict_get d key = (case map_of d key of Some (Some v) \<Rightarrow> Some v | _ \<Rightarrow> None)"

text \<open>\<open>_get_input_value\<close>: by identifier, then by display name through
  \<open>input_identifiers\<close>, then the default.\<close>

fun reverse_lookup ::
  "(string, pyval option) dict \<Rightarrow> (string, string) dict \<Rightarrow> string \<Rightarrow> pyval option" where
  "reverse_lookup ins [] name = None"
| "reverse_lookup ins ((identifier, display_name) # rest) name =
     (if display_name = name
      then (case dict_get ins identifier of
              Some v \<Rightarrow> Some v
            | None \<Rightarrow> reverse_lookup ins rest name)
      else reverse_lookup ins rest name)"

definition get_input_value :: "NodeInfo \<Rightarrow> string \<Rightarrow> pyval option \<Rightarrow> pyval option" where
  "get_input_value info name dflt =
     (case dict_get (info_inputs info) name of
        Some v \<Rightarrow> Some v
      | None \<Rightarrow>
          (case reverse_lookup (info_inputs info) (input_identifiers info) name of
             Some v \<Rightarrow> Some v
           | None \<Rightarrow> dflt))"

definition simple_transfers :: "(string \<times> string list) list" where
  "simple_transfers =
     [(''Base Color'', [''Albedo color'', ''Albedo'', ''Diffuse'']),
      (''Metallic'', [''Metallic'', ''Metallic float'']),
      (''Roughness'', [''Roughness'', ''Roughness float'']),
      (''Specular IOR Level'', [''Specular'', ''Specular float'']),
      (''IOR'', [''Dielectric IOR'', ''Index'', ''IOR'']),
      (''Alpha'', [''Opacity'', ''Opacity float'']),
      (''Coat Weight'', [''Coating'', ''Coating float'']),
      (''Coat Roughness'', [''Coating roughness'', ''Coating roughness float'']),
      (''Sheen Weight'', [''Sheen'', ''Sheen float'']),
      (''Sheen Roughness'', [''Sheen roughness'', ''Sheen roughness float'']),
      (''Anisotropic'', [''Anisotropy'', ''Anisotropy float'']),
      (''Anisotropic Rotation'', [''Anisotropy rotation'', ''Rotation'']),
      (''Thin Film Thickness'', [''Film width'', ''Thin film thickness'']),
      (''Thin Film IOR'', [''Film IOR'', ''Thin film IOR'']),
      (''Subsurface Weight'', [''SSS'', ''Subsurface''])]"

text \<open>One round of the loop over \<open>_simple_transfers\<close>.\<close>

definition transfer_simple :: "NodeInfo \<Rightarrow> string \<times> string list \<Rightarrow> node \<Rightarrow> error option \<times> node" where
  "transfer_simple info mapping nd =
     (case get_input_value info (fst mapping) None of
        Some v \<Rightarrow> write_input nd (snd mapping) v
      | None \<Rightarrow> (None, nd))"

text \<open>\<open>tuple(em_color)[:3] if hasattr(em_color, "__len__") else (0,)\<close>.\<close>

definition emission_cols :: "pyval \<Rightarrow> real list" where
  "emission_cols em_color = (case em_color of Seq cs \<Rightarrow> take 3 cs | _ \<Rightarrow> [0])"

definition transfer_emission_part :: "NodeInfo \<Rightarrow> node \<Rightarrow> error option \<times> node" where
  "transfer_emission_part info nd =
     (let em_color = get_input_value info ''Emission Color'' None;
          em_strength = get_input_value info ''Emission Strength'' None
      in then_do
           (case em_color of
              Some c \<Rightarrow> write_input nd [''Emission'', ''Emission color''] c
            | None \<Rightarrow> (None, nd))
           (\<lambda>nd1. case em_strength of
              None \<Rightarrow> (None, nd1)
            | Some st \<Rightarrow>
                then_do (write_input nd1 [''Emission power'', ''Emission weight''] st)
                  (\<lambda>nd2. if (case st of Num x \<Rightarrow> 0 < x | _ \<Rightarrow> False)
                         then put_prop nd2 ''surface_brightness'' (Num 1)
                         else (case em_color of
                                 Some c \<Rightarrow>
                                   (if \<exists>x \<in> set (emission_cols c). 0 < x
                                    then put_prop nd2 ''surface_brightness'' (Num 1)
                                    else (None, nd2))
                               | None \<Rightarrow> (None, nd2)))))"

definition transfer_transmission_part :: "NodeInfo \<Rightarrow> node \<Rightarrow> error option \<times> node" where
  "transfer_transmission_part info nd =
     (let tw = (case get_input_value info ''Transmission Weight'' None of
                  Some v \<Rightarrow> Some v
                | None \<Rightarrow> get_input_value info ''Transmission'' None)
      in case tw of
           Some (Num t) \<Rightarrow>
             then_do (write_input nd [''Transmission'', ''Transmission float''] (Num t))
               (\<lambda>nd1. if 1/2 < t
                      then then_do
                             (write_input nd1 [''Albedo color'', ''Albedo'', ''Diffuse'']
                                (Seq [0, 0, 0, 1]))
                             (\<lambda>nd2. then_do
                                (case get_input_value info ''Base Color'' None of
                                   Some bc \<Rightarrow> write_input nd2
                                                [''Transmission color'', ''Transmission''] bc
                                 | None \<Rightarrow> (None, nd2))
                                (\<lambda>nd3. put_prop nd3 ''fake_shadows'' (Num 1)))
                      else (None, nd1))
         | _ \<Rightarrow> (None, nd))"

definition transfer_subsurface_part :: "NodeInfo \<Rightarrow> node \<Rightarrow> error option \<times> node" where
  "transfer_subsurface_part info nd =
     then_do
       (case get_input_value info ''Subsurface Radius'' None of
          Some ss_rad \<Rightarrow> write_input nd [''Absorption'', ''Medium radius''] ss_rad
        | None \<Rightarrow> (None, nd))
       (\<lambda>nd1. case get_input_value info ''Subsurface Scale'' None of
          Some ss_scale \<Rightarrow> write_input nd1 [''Density'', ''Medium scale''] ss_scale
        | None \<Rightarrow> (None, nd1))"

text \<open>\<open>_transfer_principled\<close>: the simple channels, then emission, transmission and
  subsurface, in this order.\<close>

definition transfer_principled :: "NodeInfo \<Rightarrow> node \<Rightarrow> error option \<times> node" where
  "transfer_principled info nd =
     then_do
       (then_do
         (then_do (do_each (transfer_simple info) simple_transfers nd)
            (transfer_emission_part info))
         (transfer_transmission_part info))
       (transfer_subsurface_part info)"

text \<open>Reading a target socket by name, and whether an assignment through that name
  is taken.\<close>

definition val_at :: "node \<Rightarrow> string \<Rightarrow> pyval option" where
  "val_at nd name = (case coll_get (inputs nd) name of
                       Some i \<Rightarrow> default_value (inputs nd ! i)
                     | None \<Rightarrow> None)"

definition writable :: "node \<Rightarrow> string \<Rightarrow> pyval \<Rightarrow> bool" where
  "writable nd name v =
     (case coll_get (inputs nd) name of
        Some i \<Rightarrow> default_value (inputs nd ! i) \<noteq> None \<and> assign_error (inputs nd ! i) v = None
      | None \<Rightarrow> False)"


section \<open>conversion_engine.py: the target tree and the mix-shader fix\<close>

text \<open>
  A node tree: its nodes in the order of \<open>tree.nodes\<close>, each with its handle (a Python
  object reference), and its links in the order of \<open>tree.links\<close>. A socket is named by its node's handle and its index in the
  node's inputs or outputs. \<open>sock.links\<close> of an input socket are the tree's links into it.
  \<open>links.remove\<close> takes one link out; \<open>links.new\<close> appends a link and, as the host does
  for an input socket, replaces what was linked to the socket before. \<open>node_map\<close> maps a
  source node name to the handle of its target node.
\<close>

type_synonym handle = nat
type_synonym sock_ref = "handle \<times> nat"

record link =
  link_from :: sock_ref
  link_to :: sock_ref

record node_tree =
  tree_nodes :: "(handle \<times> node) list"
  tree_links :: "link list"

definition socket_links :: "node_tree \<Rightarrow> sock_ref \<Rightarrow> link list" where
  "socket_links t s = filter (\<lambda>l. link_to l = s) (tree_links t)"

definition links_remove :: "link \<Rightarrow> node_tree \<Rightarrow> node_tree" where
  "links_remove l t = t\<lparr>tree_links := remove1 l (tree_links t)\<rparr>"

definition links_new :: "sock_ref \<Rightarrow> sock_ref \<Rightarrow> node_tree \<Rightarrow> node_tree" where
  "links_new from_sock to_sock t =
     t\<lparr>tree_links := filter (\<lambda>l. link_to l \<noteq> to_sock) (tree_links t)
                        @ [\<lparr>link_from = from_sock, link_to = to_sock\<rparr>]\<rparr>"

text \<open>\<open>for link in list(sock.links): target_tree.links.remove(link)\<close>.\<close>

definition clear_socket :: "sock_ref \<Rightarrow> node_tree \<Rightarrow> node_tree" where
  "clear_socket s t = fold links_remove (socket_links t s) t"

text \<open>The two material inputs of the target mix node: by name, else inputs 1 and 2 of a
  node with at least three inputs.\<close>

definition mix_slots :: "node \<Rightarrow> (nat \<times> nat) option" where
  "mix_slots oct_node =
     (let mat1_sock = first_candidate (coll_get (inputs oct_node))
                        [''Material1'', ''Shader1'', ''Material 1''];
          mat2_sock = first_candidate (coll_get (inputs oct_node))
                        [''Material2'', ''Shader2'', ''Material 2'']
      in case (mat1_sock, mat2_sock) of
           (Some i1, Some i2) \<Rightarrow> Some (i1, i2)
         | _ \<Rightarrow> if 3 \<le> length (inputs oct_node) then Some (1, 2) else None)"

text \<open>\<open>sock.links[0].from_socket if sock.links else None\<close>.\<close>

definition first_from :: "link list \<Rightarrow> sock_ref option" where
  "first_from ls = (case ls of [] \<Rightarrow> None | l # _ \<Rightarrow> Some (link_from l))"

text \<open>One round of the loop of \<open>_fix_mix_shader_links\<close>.\<close>

definition fix_mix_node :: "(string, handle) dict \<Rightarrow> string \<times> NodeInfo \<Rightarrow> node_tree \<Rightarrow> node_tree" where
  "fix_mix_node node_map item t =
     (if info_bl_idname (snd item) \<noteq> ''ShaderNodeMixShader'' then t
      else case map_of node_map (fst item) of
        None \<Rightarrow> t
      | Some h \<Rightarrow>
         (case map_of (tree_nodes t) h of
            None \<Rightarrow> t
          | Some oct_node \<Rightarrow>
             (case mix_slots oct_node of
                None \<Rightarrow> t
              | Some (i1, i2) \<Rightarrow>
                 (let mat1_from = first_from (socket_links t (h, i1));
                      mat2_from = first_from (socket_links t (h, i2))
                  in if mat1_from = None \<and> mat2_from = None then t
                     else (let t1 = clear_socket (h, i1) t;
                               t2 = clear_socket (h, i2) t1;
                               t3 = (case mat1_from of
                                       Some f \<Rightarrow> links_new f (h, i2) t2
                                     | None \<Rightarrow> t2)
                           in case mat2_from of
                                Some f \<Rightarrow> links_new f (h, i1) t3
                              | None \<Rightarrow> t3)))))"

definition fix_mix_shader_links ::
  "TreeAnalysis \<Rightarrow> (string, handle) dict \<Rightarrow> node_tree \<Rightarrow> node_tree" where
  "fix_mix_shader_links analysis node_map target_tree =
     fold (fix_mix_node node_map) (nodes analysis) target_tree"


section \<open>conversion_engine.py: one material, and the batch\<close>

text \<open>
  The host's data: the materials (\<open>bpy.data.materials\<close>) by handle, each with its name
  and, when it has one, its node tree; the scene's objects, each with its material slots
  (\<open>None\<close> for an object without the attribute) and its scale; and the module's
  conversion cache \<open>_cache._materials\<close>, from a source material's name to the name of
  its converted material.
\<close>

record material =
  mat_name :: string
  mat_node_tree :: "node_tree option"
  use_nodes :: bool

record object =
  material_slots :: "handle option list option"
  obj_scale :: "real \<times> real \<times> real"

record bpy_state =
  materials :: "(handle \<times> material) list"
  objects :: "object list"
  cache :: "(string, string) dict"

subsection \<open>cache.py\<close>

definition has_material :: "(string, string) dict \<Rightarrow> string \<Rightarrow> bool" where
  "has_material c name = (map_of c name \<noteq> None)"

definition register_material :: "(string, string) dict \<Rightarrow> string \<Rightarrow> string \<Rightarrow> (string, string) dict" where
  "register_material c original_name converted_name = dict_set c original_name converted_name"

definition get_converted_material_name :: "(string, string) dict \<Rightarrow> string \<Rightarrow> string option" where
  "get_converted_material_name c original_name = map_of c original_name"

definition reset_cache :: "bpy_state \<Rightarrow> bpy_state" where
  "reset_cache s = s\<lparr>cache := []\<rparr>"

subsection \<open>Host operations on materials\<close>

text \<open>\<open>bpy.data.materials.get(name)\<close>.\<close>

definition materials_get :: "bpy_state \<Rightarrow> string \<Rightarrow> handle option" where
  "materials_get s name = map_option fst (find (\<lambda>hm. mat_name (snd hm) = name) (materials s))"

definition material_name :: "bpy_state \<Rightarrow> handle \<Rightarrow> string" where
  "material_name s h = (case map_of (materials s) h of Some m \<Rightarrow> mat_name m | None \<Rightarrow> [])"

definition fresh_handle :: "bpy_state \<Rightarrow> handle" where
  "fresh_handle s = Suc (fold max (map fst (materials s)) 0)"

text \<open>\<open>mat.copy()\<close>: a new material, with a copy of the node tree, under a new handle.\<close>

definition material_copy :: "material \<Rightarrow> bpy_state \<Rightarrow> handle \<times> bpy_state" where
  "material_copy m s = (fresh_handle s, s\<lparr>materials := materials s @ [(fresh_handle s, m)]\<rparr>)"

definition update_material :: "handle \<Rightarrow> (material \<Rightarrow> material) \<Rightarrow> bpy_state \<Rightarrow> bpy_state" where
  "update_material h f s =
     s\<lparr>materials := map (\<lambda>hm. if fst hm = h then (fst hm, f (snd hm)) else hm) (materials s)\<rparr>"

text \<open>\<open>_clear_tree_except_output\<close>: the host takes a removed node's links out with it.\<close>

definition clear_tree_except_output :: "node_tree \<Rightarrow> node_tree" where
  "clear_tree_except_output t =
     (let keep = filter (\<lambda>hn. bl_idname (snd hn) = ''ShaderNodeOutputMaterial'') (tree_nodes t)
      in \<lparr>tree_nodes = keep,
          tree_links = filter (\<lambda>l. fst (link_from l) \<in> fst ` set keep
                                   \<and> fst (link_to l) \<in> fst ` set keep) (tree_links t)\<rparr>)"

subsection \<open>convert_material\<close>

text \<open>
  \<open>GraphEngine.__init__(self, analysis)\<close> has the one parameter \<open>analysis\<close>: a call that
  passes any other keyword argument raises \<open>TypeError\<close>. The engine built is its
  dependency graph.
\<close>

definition GraphEngine_init :: "TreeAnalysis \<Rightarrow> string list \<Rightarrow> error + deps" where
  "GraphEngine_init analysis keywords =
     (if keywords = [] then Inr (build_dependency_graph analysis) else Inl TypeError)"

text \<open>
  Two parts of the pipeline are parameters: \<open>analyze_tree\<close> (the node walk above, then the
  link walk), which reads a tree and may raise, and \<open>lower_steps\<close>, steps 4 to 13 of
  \<open>convert_material\<close> after the engine is built (node creation, property transfer, links,
  post-processing), which works on the state and may raise.
\<close>

record pipeline =
  analyze_tree :: "node_tree \<Rightarrow> error + TreeAnalysis"
  lower_steps :: "deps \<Rightarrow> TreeAnalysis \<Rightarrow> handle \<Rightarrow> real \<Rightarrow> nat option \<Rightarrow> bpy_state
              \<Rightarrow> error option \<times> bpy_state"

text \<open>An exception leaves the state as it is when it is raised. A material is given by its
  handle (a handle that names no material is read as \<open>None\<close>); the owning object by its
  index in the scene.\<close>

definition convert_material ::
  "pipeline \<Rightarrow> handle option \<Rightarrow> real \<Rightarrow> nat option \<Rightarrow> bpy_state
     \<Rightarrow> (error + handle option) \<times> bpy_state" where
  "convert_material p mat gamma_value obj s =
     (case mat of
        None \<Rightarrow> (Inr None, s)
      | Some h \<Rightarrow>
         (case map_of (materials s) h of
            None \<Rightarrow> (Inr None, s)
          | Some m \<Rightarrow>
             (case mat_node_tree m of
                None \<Rightarrow> (Inr None, s)
              | Some tree \<Rightarrow>
                 (if has_material (cache s) (mat_name m)
                  then (case get_converted_material_name (cache s) (mat_name m) of
                          Some cached_name \<Rightarrow> (Inr (materials_get s cached_name), s)
                        | None \<Rightarrow> (Inr None, s))
                  else (case analyze_tree p tree of
                          Inl e \<Rightarrow> (Inl e, s)
                        | Inr analysis \<Rightarrow>
                           (let (new_mat, s1) = material_copy m s;
                                s2 = update_material new_mat
                                       (\<lambda>c. c\<lparr>mat_name := mat_name m @ ''_OCTANE''\<rparr>) s1;
                                s3 = update_material new_mat (\<lambda>c. c\<lparr>use_nodes := True\<rparr>) s2;
                                s4 = update_material new_mat
                                       (\<lambda>c. c\<lparr>mat_node_tree :=
                                          map_option clear_tree_except_output (mat_node_tree c)\<rparr>) s3
                            in case GraphEngine_init analysis [''group_converter_cb''] of
                                 Inl e \<Rightarrow> (Inl e, s4)
                               | Inr engine \<Rightarrow>
                                  (case lower_steps p engine analysis new_mat gamma_value obj s4 of
                                     (Some e, s5) \<Rightarrow> (Inl e, s5)
                                   | (None, s5) \<Rightarrow>
                                      (Inr (Some new_mat),
                                       s5\<lparr>cache := register_material (cache s5) (mat_name m)
                                                      (material_name s5 new_mat)\<rparr>))))))))"

subsection \<open>The batch functions and the operator\<close>

definition slot_material :: "bpy_state \<Rightarrow> nat \<Rightarrow> nat \<Rightarrow> handle option" where
  "slot_material s k i =
     (if k < length (objects s)
      then (case material_slots (objects s ! k) of
              Some slots \<Rightarrow> (if i < length slots then slots ! i else None)
            | None \<Rightarrow> None)
      else None)"

definition set_slot :: "nat \<Rightarrow> nat \<Rightarrow> handle \<Rightarrow> bpy_state \<Rightarrow> bpy_state" where
  "set_slot k i new_mat s =
     (if k < length (objects s)
      then s\<lparr>objects := (objects s)[k := (objects s ! k)\<lparr>material_slots :=
              map_option (\<lambda>slots. slots[i := Some new_mat]) (material_slots (objects s ! k))\<rparr>]\<rparr>
      else s)"

text \<open>The loop of \<open>convert_object_materials\<close> over the slots of object \<open>k\<close>: there is no
  \<open>try\<close> around \<open>convert_material\<close>, so its exception ends the loop.\<close>

fun convert_slots ::
  "pipeline \<Rightarrow> nat \<Rightarrow> real \<Rightarrow> nat list \<Rightarrow> handle list \<Rightarrow> bpy_state
     \<Rightarrow> (error + handle list) \<times> bpy_state" where
  "convert_slots p k gamma_value [] converted s = (Inr converted, s)"
| "convert_slots p k gamma_value (i # rest) converted s =
     (case slot_material s k i of
        None \<Rightarrow> convert_slots p k gamma_value rest converted s
      | Some mat \<Rightarrow>
         (case convert_material p (Some mat) gamma_value (Some k) s of
            (Inl e, s') \<Rightarrow> (Inl e, s')
          | (Inr None, s') \<Rightarrow> convert_slots p k gamma_value rest converted s'
          | (Inr (Some new_mat), s') \<Rightarrow>
              convert_slots p k gamma_value rest (converted @ [new_mat])
                (set_slot k i new_mat s')))"

definition convert_object_materials ::
  "pipeline \<Rightarrow> nat option \<Rightarrow> real \<Rightarrow> bpy_state \<Rightarrow> (error + handle list) \<times> bpy_state" where
  "convert_object_materials p obj gamma_value s =
     (case obj of
        None \<Rightarrow> (Inr [], s)
      | Some k \<Rightarrow>
         (if k < length (objects s)
          then (case material_slots (objects s ! k) of
                  None \<Rightarrow> (Inr [], s)
                | Some slots \<Rightarrow> convert_slots p k gamma_value [0..<length slots] [] s)
          else (Inr [], s)))"

fun convert_objects ::
  "pipeline \<Rightarrow> real \<Rightarrow> nat list \<Rightarrow> handle list \<Rightarrow> bpy_state
     \<Rightarrow> (error + handle list) \<times> bpy_state" where
  "convert_objects p gamma_value [] converted s = (Inr converted, s)"
| "convert_objects p gamma_value (k # rest) converted s =
     (if k < length (objects s) \<and> material_slots (objects s ! k) = None
      then convert_objects p gamma_value rest converted s
      else (case convert_object_materials p (Some k) gamma_value s of
              (Inl e, s') \<Rightarrow> (Inl e, s')
            | (Inr results, s') \<Rightarrow> convert_objects p gamma_value rest (converted @ results) s'))"

definition convert_scene_materials ::
  "pipeline \<Rightarrow> real \<Rightarrow> bpy_state \<Rightarrow> (error + handle list) \<times> bpy_state" where
  "convert_scene_materials p gamma_value s =
     (let s0 = reset_cache s
      in convert_objects p gamma_value [0..<length (objects s0)] [] s0)"

text \<open>\<open>OCTANIFY_OT_convert.execute\<close> (ui/operators.py): the one \<open>try\<close> around a batch.
  The reports are left out.\<close>

datatype batch_mode = MODE_ACTIVE | MODE_ALL

datatype operator_result = FINISHED | CANCELLED

definition execute ::
  "pipeline \<Rightarrow> batch_mode \<Rightarrow> nat option \<Rightarrow> real \<Rightarrow> bpy_state \<Rightarrow> operator_result \<times> bpy_state" where
  "execute p mode active_object gamma s =
     (case mode of
        MODE_ACTIVE \<Rightarrow>
          (case active_object of
             None \<Rightarrow> (CANCELLED, s)
           | Some k \<Rightarrow>
              (case convert_object_materials p (Some k) gamma (reset_cache s) of
                 (Inl e, s') \<Rightarrow> (CANCELLED, s')
               | (Inr converted, s') \<Rightarrow> (FINISHED, s')))
      | MODE_ALL \<Rightarrow>
          (case convert_scene_materials p gamma s of
             (Inl e, s') \<Rightarrow> (CANCELLED, s')
           | (Inr converted, s') \<Rightarrow> (FINISHED, s')))"

subsection \<open>Scale correction\<close>

text \<open>
  The module defines \<open>_apply_scale_correction\<close> twice. The first definition (lines 547 to
  581) multiplies the scale socket of every lowered Mapping node by the object's scale;
  the second (lines 646 to 652) has the body \<open>pass\<close>. The later \<open>def\<close> rebinds the name,
  so the second is the function \<open>convert_material\<close> calls.
\<close>

definition scale_node :: "real \<times> real \<times> real \<Rightarrow> node \<Rightarrow> error option \<times> node" where
  "scale_node sc oct_node =
     (case or_else (coll_get (inputs oct_node) ''Scale'') (coll_get (inputs oct_node) ''Scaling'') of
        None \<Rightarrow> (None, oct_node)
      | Some i \<Rightarrow>
         (let scale_sock = inputs oct_node ! i
          in case default_value scale_sock of
               Some (Seq current) \<Rightarrow>
                 (if length current < 3 then (None, oct_node)
                  else (let new = Seq (current[0 := current ! 0 * fst sc,
                                               1 := current ! 1 * fst (snd sc),
                                               2 := current ! 2 * snd (snd sc)])
                        in case assign_error scale_sock new of
                             None \<Rightarrow>
                               (None, oct_node\<lparr>inputs := (inputs oct_node)
                                        [i := scale_sock\<lparr>default_value := Some new\<rparr>]\<rparr>)
                           | Some e \<Rightarrow>
                               if e = TypeError \<or> e = IndexError then (None, oct_node)
                               else (Some e, oct_node)))
             | _ \<Rightarrow> (None, oct_node)))"

text \<open>The loop of the first definition over \<open>analysis.nodes\<close>; an exception ends it.\<close>

fun scale_mapping_nodes ::
  "real \<times> real \<times> real \<Rightarrow> (string, handle) dict \<Rightarrow> (string \<times> NodeInfo) list \<Rightarrow> node_tree
     \<Rightarrow> error option \<times> node_tree" where
  "scale_mapping_nodes sc node_map [] t = (None, t)"
| "scale_mapping_nodes sc node_map (item # rest) t =
     (if info_bl_idname (snd item) \<noteq> ''ShaderNodeMapping''
      then scale_mapping_nodes sc node_map rest t
      else (case map_of node_map (fst item) of
              None \<Rightarrow> scale_mapping_nodes sc node_map rest t
            | Some h \<Rightarrow>
               (case map_of (tree_nodes t) h of
                  None \<Rightarrow> scale_mapping_nodes sc node_map rest t
                | Some oct_node \<Rightarrow>
                   (case scale_node sc oct_node of
                      (Some e, oct_node') \<Rightarrow>
                        (Some e, t\<lparr>tree_nodes := map (\<lambda>hn. if fst hn = h then (h, oct_node')
                                                        else hn) (tree_nodes t)\<rparr>)
                    | (None, oct_node') \<Rightarrow>
                        scale_mapping_nodes sc node_map rest
                          (t\<lparr>tree_nodes := map (\<lambda>hn. if fst hn = h then (h, oct_node')
                                                     else hn) (tree_nodes t)\<rparr>)))))"

definition apply_scale_correction_shadowed ::
  "object option \<Rightarrow> (string, handle) dict \<Rightarrow> TreeAnalysis \<Rightarrow> node_tree
     \<Rightarrow> error option \<times> node_tree" where
  "apply_scale_correction_shadowed obj node_map analysis t =
     (case obj of
        None \<Rightarrow> (None, t)
      | Some ob \<Rightarrow>
         (let sc = obj_scale ob
          in if \<bar>fst sc - 1\<bar> < 1/1000 \<and> \<bar>fst (snd sc) - 1\<bar> < 1/1000 \<and> \<bar>snd (snd sc) - 1\<bar> < 1/1000
             then (None, t)
             else scale_mapping_nodes sc node_map (nodes analysis) t))"

definition apply_scale_correction ::
  "object option \<Rightarrow> (string, handle) dict \<Rightarrow> TreeAnalysis \<Rightarrow> node_tree \<Rightarrow> node_tree" where
  "apply_scale_correction obj node_map analysis t = t"


section \<open>Concrete inputs\<close>

text \<open>The entries of \<open>INPUT_MAP\<close> for the two shader-mixing node types, as the registry
  has them.\<close>

definition INPUT_MAP_mix :: socket_map where
  "INPUT_MAP_mix =
     [''ShaderNodeMixShader'' \<mapsto>
        [''Fac'' \<mapsto> [''Amount'', ''Factor''],
         ''Shader'' \<mapsto> [''Material1'', ''Shader1''],
         ''Shader_001'' \<mapsto> [''Material2'', ''Shader2'']],
      ''ShaderNodeAddShader'' \<mapsto>
        [''Shader'' \<mapsto> [''Material1'', ''Shader1''],
         ''Shader_001'' \<mapsto> [''Material2'', ''Shader2'']]]"

definition mk_socket :: "string \<Rightarrow> pyval option \<Rightarrow> socket" where
  "mk_socket n v =
     \<lparr>sock_name = n, sock_identifier = n, default_value = v, assign_error = (\<lambda>_. None)\<rparr>"

text \<open>A node without an attribute that \<open>setattr\<close> could assign.\<close>

definition no_attribute :: "string \<Rightarrow> pyval \<Rightarrow> error option" where
  "no_attribute attr v = Some AttributeError"

text \<open>A target node whose sockets are spelled in capitals.\<close>

definition upper_mix_node :: node where
  "upper_mix_node =
     \<lparr>nd_name = ''Mix'', bl_idname = ''OctaneMixMaterial'', label = ''Mix'', location = (0, 0),
      inputs = [mk_socket ''Texture'' None, mk_socket ''AMOUNT'' (Some (Num (1/2)))],
      outputs = [], attrs = [],
      setattr_error = no_attribute\<rparr>"

text \<open>A three-node chain: image texture, principled shader, material output.\<close>

definition mk_info :: "string \<Rightarrow> string \<Rightarrow> NodeInfo" where
  "mk_info name idname =
     \<lparr>info_name = name, info_bl_idname = idname, info_label = name, info_location = (0, 0),
      info_inputs = [], info_outputs = [], info_properties = [],
      input_identifiers = [], output_identifiers = []\<rparr>"

definition mk_link :: "string \<Rightarrow> string \<Rightarrow> string \<Rightarrow> string \<Rightarrow> int \<Rightarrow> LinkInfo" where
  "mk_link f fs t ts idx =
     \<lparr>from_node = f, from_socket = fs, to_node = t, to_socket = ts,
      from_socket_identifier = fs, to_socket_identifier = ts, to_socket_index = idx\<rparr>"

definition mk_analysis :: "(string, NodeInfo) dict \<Rightarrow> LinkInfo list \<Rightarrow> TreeAnalysis" where
  "mk_analysis ns ls =
     \<lparr>nodes = ns, links = ls, has_glass = False, has_emission = False, has_volume = False,
      has_alpha = False, has_bump = False, has_normal_map = False, has_sss = False,
      has_displacement = False, transmission_weight = 0\<rparr>"

definition chain_analysis :: TreeAnalysis where
  "chain_analysis = mk_analysis
     [(''Out'', mk_info ''Out'' ''ShaderNodeOutputMaterial''),
      (''BSDF'', mk_info ''BSDF'' ''ShaderNodeBsdfPrincipled''),
      (''Tex'', mk_info ''Tex'' ''ShaderNodeTexImage'')]
     [mk_link ''BSDF'' ''BSDF'' ''Out'' ''Surface'' 0,
      mk_link ''Tex'' ''Color'' ''BSDF'' ''Base Color'' 0]"


text \<open>A principled shader node that emits through its strength alone: the emission colour
  is black, the emission strength is 5.\<close>

definition strength_only_node :: node where
  "strength_only_node =
     \<lparr>nd_name = ''Principled BSDF'', bl_idname = ''ShaderNodeBsdfPrincipled'',
      label = [], location = (0, 0),
      inputs = [mk_socket ''Base Color'' (Some (Seq [8/10, 8/10, 8/10, 1])),
                mk_socket ''Emission Color'' (Some (Seq [0, 0, 0, 1])),
                mk_socket ''Emission Strength'' (Some (Num 5))],
      outputs = [mk_socket ''BSDF'' None], attrs = [],
      setattr_error = no_attribute\<rparr>"

text \<open>A principled shader node with a given transmission weight, and a target material
  node whose float sockets take numbers (anything else raises \<open>TypeError\<close>) and whose
  colour sockets take four components (a number or another length raises
  \<open>ValueError\<close>).\<close>

definition float_socket :: "string \<Rightarrow> real \<Rightarrow> socket" where
  "float_socket n x =
     \<lparr>sock_name = n, sock_identifier = n, default_value = Some (Num x),
      assign_error = (\<lambda>v. case v of Num _ \<Rightarrow> None | _ \<Rightarrow> Some TypeError)\<rparr>"

definition color_socket :: "string \<Rightarrow> real list \<Rightarrow> socket" where
  "color_socket n c =
     \<lparr>sock_name = n, sock_identifier = n, default_value = Some (Seq c),
      assign_error = (\<lambda>v. case v of
                          Seq cs \<Rightarrow> if length cs = 4 then None else Some ValueError
                        | Num _ \<Rightarrow> Some ValueError
                        | Obj _ \<Rightarrow> Some TypeError)\<rparr>"

definition principled_with :: "real \<Rightarrow> node" where
  "principled_with tw =
     \<lparr>nd_name = ''Principled BSDF'', bl_idname = ''ShaderNodeBsdfPrincipled'',
      label = [], location = (0, 0),
      inputs = [color_socket ''Base Color'' [8/10, 2/10, 1/10, 1],
                float_socket ''Metallic'' 0,
                float_socket ''Roughness'' (1/2),
                float_socket ''Transmission Weight'' tw,
                color_socket ''Emission Color'' [0, 0, 0, 1],
                float_socket ''Emission Strength'' 0],
      outputs = [mk_socket ''BSDF'' None], attrs = [],
      setattr_error = no_attribute\<rparr>"


text \<open>A target material whose \<open>Transmission\<close> input is a colour socket, beside the colour
  sockets \<open>Transmission color\<close> and \<open>Albedo color\<close>.\<close>

definition tinted_material :: node where
  "tinted_material =
     \<lparr>nd_name = ''Specular material'', bl_idname = ''OctaneSpecularMaterial'',
      label = [], location = (0, 0),
      inputs = [color_socket ''Transmission'' [1, 1, 1, 1],
                color_socket ''Transmission color'' [1, 1, 1, 1],
                color_socket ''Albedo color'' [7/10, 7/10, 7/10, 1]],
      outputs = [mk_socket ''OutMat'' None],
      attrs = [],
      setattr_error = no_attribute\<rparr>"


text \<open>A lowered mix of two shaders: producer 0 feeds the mix node's first material input,
  producer 1 the second.\<close>

definition material_node :: "string \<Rightarrow> node" where
  "material_node n =
     \<lparr>nd_name = n, bl_idname = ''OctaneGlossyMaterial'', label = n, location = (0, 0),
      inputs = [], outputs = [mk_socket ''OutMat'' None], attrs = [],
      setattr_error = no_attribute\<rparr>"

definition mix_material_node :: node where
  "mix_material_node =
     \<lparr>nd_name = ''Mix material'', bl_idname = ''OctaneMixMaterial'', label = ''Mix'',
      location = (0, 0),
      inputs = [float_socket ''Amount'' (1/2), mk_socket ''Material1'' None,
                mk_socket ''Material2'' None],
      outputs = [mk_socket ''OutMat'' None], attrs = [],
      setattr_error = no_attribute\<rparr>"

definition mix_analysis :: TreeAnalysis where
  "mix_analysis = mk_analysis
     [(''Glossy'', mk_info ''Glossy'' ''ShaderNodeBsdfGlossy''),
      (''Diffuse'', mk_info ''Diffuse'' ''ShaderNodeBsdfDiffuse''),
      (''Mix'', mk_info ''Mix'' ''ShaderNodeMixShader'')]
     [mk_link ''Glossy'' ''BSDF'' ''Mix'' ''Shader'' 1,
      mk_link ''Diffuse'' ''BSDF'' ''Mix'' ''Shader'' 2]"

definition mix_node_map :: "(string, handle) dict" where
  "mix_node_map = [(''Glossy'', 0), (''Diffuse'', 1), (''Mix'', 2)]"

definition mix_tree :: node_tree where
  "mix_tree =
     \<lparr>tree_nodes = [(0, material_node ''A''), (1, material_node ''B''),
                    (2, mix_material_node)],
      tree_links = [\<lparr>link_from = (0, 0), link_to = (2, 1)\<rparr>,
                    \<lparr>link_from = (1, 0), link_to = (2, 2)\<rparr>]\<rparr>"


text \<open>A pipeline whose analysis is the node walk and whose lowering steps do nothing, a
  material tree of a principled node feeding the output node, and a scene of one object
  with three material slots: a material without a node tree and two with the tree.\<close>

definition node_walk_pipeline :: pipeline where
  "node_walk_pipeline =
     \<lparr>analyze_tree = (\<lambda>t. analyze_nodes (\<lambda>n. []) (map snd (tree_nodes t)) empty_analysis),
      lower_steps = (\<lambda>engine analysis new_mat gamma_value obj s. (None, s))\<rparr>"

definition output_node :: node where
  "output_node =
     \<lparr>nd_name = ''Material Output'', bl_idname = ''ShaderNodeOutputMaterial'', label = [],
      location = (300, 0), inputs = [mk_socket ''Surface'' None], outputs = [], attrs = [],
      setattr_error = no_attribute\<rparr>"

definition simple_tree :: node_tree where
  "simple_tree =
     \<lparr>tree_nodes = [(0, principled_with (6/10)), (1, output_node)],
      tree_links = [\<lparr>link_from = (0, 0), link_to = (1, 0)\<rparr>]\<rparr>"

definition batch_state :: bpy_state where
  "batch_state =
     \<lparr>materials =
        [(0, \<lparr>mat_name = ''Glass'', mat_node_tree = Some simple_tree, use_nodes = True\<rparr>),
         (1, \<lparr>mat_name = ''Metal'', mat_node_tree = Some simple_tree, use_nodes = True\<rparr>),
         (2, \<lparr>mat_name = ''Legacy'', mat_node_tree = None, use_nodes = False\<rparr>)],
      objects = [\<lparr>material_slots = Some [Some 2, Some 0, Some 1], obj_scale = (2, 3, 4)\<rparr>],
      cache = []\<rparr>"


text \<open>A lowered Mapping node with unit scale, on an object scaled by (2, 3, 4).\<close>

definition vector_socket :: "string \<Rightarrow> real list \<Rightarrow> socket" where
  "vector_socket n c =
     \<lparr>sock_name = n, sock_identifier = n, default_value = Some (Seq c),
      assign_error = (\<lambda>v. case v of
                          Seq cs \<Rightarrow> if length cs = 3 then None else Some ValueError
                        | Num _ \<Rightarrow> Some ValueError
                        | Obj _ \<Rightarrow> Some TypeError)\<rparr>"

definition transform_node :: node where
  "transform_node =
     \<lparr>nd_name = ''3D transformation'', bl_idname = ''Octane3DTransformation'', label = [],
      location = (0, 0),
      inputs = [vector_socket ''Rotation'' [0, 0, 0], vector_socket ''Scale'' [1, 1, 1],
                vector_socket ''Translation'' [0, 0, 0]],
      outputs = [mk_socket ''OutTransform'' None], attrs = [],
      setattr_error = no_attribute\<rparr>"

definition mapping_analysis :: TreeAnalysis where
  "mapping_analysis = mk_analysis [(''Mapping'', mk_info ''Mapping'' ''ShaderNodeMapping'')] []"

definition mapping_node_map :: "(string, handle) dict" where
  "mapping_node_map = [(''Mapping'', 0)]"

definition mapping_tree :: node_tree where
  "mapping_tree = \<lparr>tree_nodes = [(0, transform_node)], tree_links = []\<rparr>"

definition scaled_object :: object where
  "scaled_object = \<lparr>material_slots = Some [], obj_scale = (2, 3, 4)\<rparr>"


lemmas example_node_defs = principled_with_def float_socket_def color_socket_def mk_socket_def


section \<open>Facts about the search helpers\<close>

lemma first_index_Nil_iff: "first_index P xs = None \<longleftrightarrow> (\<forall>x \<in> set xs. \<not> P x)"
  by (induction xs) auto

lemma first_index_Some:
  "first_index P xs = Some i \<Longrightarrow> i < length xs \<and> P (xs ! i) \<and> (\<forall>j < i. \<not> P (xs ! j))"
proof (induction xs arbitrary: i)
  case Nil
  then show ?case by simp
next
  case (Cons x xs)
  show ?case
  proof (cases "P x")
    case True
    with Cons.prems show ?thesis by simp
  next
    case False
    with Cons.prems obtain k where k: "first_index P xs = Some k" "i = Suc k"
      by auto
    from Cons.IH [OF k(1)] have ih: "k < length xs" "P (xs ! k)" "\<forall>j < k. \<not> P (xs ! j)"
      by auto
    have "\<forall>j < Suc k. \<not> P ((x # xs) ! j)"
    proof (intro allI impI)
      fix j assume "j < Suc k"
      then show "\<not> P ((x # xs) ! j)"
        using False ih(3) by (cases j) auto
    qed
    with ih k show ?thesis by simp
  qed
qed

lemma first_candidate_None_iff:
  "first_candidate f cs = None \<longleftrightarrow> (\<forall>c \<in> set cs. f c = None)"
  by (induction cs) (auto split: option.splits)

lemma first_candidate_Some:
  "first_candidate f cs = Some i \<Longrightarrow> \<exists>c \<in> set cs. f c = Some i"
  by (induction cs) (auto split: option.splits)

lemma or_else_simps [simp]: "or_else None b = b" "or_else (Some x) b = Some x"
  by (simp_all add: or_else_def)

lemma or_else_None_iff: "or_else a b = None \<longleftrightarrow> a = None \<and> b = None"
  by (cases a) simp_all

section \<open>Output-side resolution\<close>



section \<open>The schedule is a topological order\<close>

lemma precedes_append: "precedes S m x \<Longrightarrow> precedes (S @ T) m x"
proof -
  assume "precedes S m x"
  then obtain S1 S2 where "S = S1 @ x # S2" "m \<in> set S1"
    unfolding precedes_def by blast
  then have "S @ T = S1 @ x # (S2 @ T) \<and> m \<in> set S1" by simp
  then show ?thesis unfolding precedes_def by blast
qed

lemma precedes_last: "m \<in> set S \<Longrightarrow> precedes (S @ [x]) m x"
  unfolding precedes_def by blast

lemma visit_correct:
  "(\<forall>xs. set (it xs) = set xs) \<Longrightarrow> acyclic (dep_rel d) \<Longrightarrow> sched_inv d s \<Longrightarrow>
     (\<forall>g \<in> gray s. (n, g) \<in> (dep_rel d)\<^sup>+) \<Longrightarrow>
     sched_inv d (visit it d n s) \<and> gray (visit it d n s) = gray s \<and>
     n \<in> set (schedule (visit it d n s)) \<and>
     set (schedule s) \<subseteq> set (schedule (visit it d n s))"
  "(\<forall>xs. set (it xs) = set xs) \<Longrightarrow> acyclic (dep_rel d) \<Longrightarrow> sched_inv d s \<Longrightarrow>
     (\<forall>g \<in> gray s. \<forall>n \<in> set ns. (n, g) \<in> (dep_rel d)\<^sup>+) \<Longrightarrow>
     sched_inv d (visit_each it d ns s) \<and> gray (visit_each it d ns s) = gray s \<and>
     set ns \<subseteq> set (schedule (visit_each it d ns s)) \<and>
     set (schedule s) \<subseteq> set (schedule (visit_each it d ns s))"
proof (induction it d n s and it d ns s rule: visit_visit_each.induct)
  case (1 it d n s)
  note it = "1.prems"(1) and ac = "1.prems"(2) and inv = "1.prems"(3) and gr = "1.prems"(4)
  show ?case
  proof (cases "n \<in> visited s")
    case True
    have "n \<notin> gray s"
    proof
      assume "n \<in> gray s"
      with gr have "(n, n) \<in> (dep_rel d)\<^sup>+" by blast
      with ac show False by (simp add: acyclic_def)
    qed
    with True have "n \<in> set (schedule s)" by (simp add: gray_def)
    with True inv show ?thesis by (simp add: visit.simps)
  next
    case False
    define s1 where "s1 = s\<lparr>visited := insert n (visited s)\<rparr>"
    define s2 where "s2 = visit_each it d (it (deps_get d n)) s1"
    have v: "visit it d n s = s2\<lparr>schedule := schedule s2 @ [n]\<rparr>"
      using False by (simp add: visit.simps Let_def s1_def s2_def)
    have n_unsched: "n \<notin> set (schedule s)"
      using False inv by (auto simp: sched_inv_def)
    have inv1: "sched_inv d s1"
      using inv by (auto simp: sched_inv_def s1_def)
    have gray1: "gray s1 = insert n (gray s)"
      using n_unsched by (auto simp: gray_def s1_def)
    have pre: "\<forall>g \<in> gray s1. \<forall>m \<in> set (it (deps_get d n)). (m, g) \<in> (dep_rel d)\<^sup>+"
    proof (intro ballI)
      fix g m assume g: "g \<in> gray s1" and m: "m \<in> set (it (deps_get d n))"
      from m it have mn: "(m, n) \<in> dep_rel d" by (simp add: dep_rel_def)
      show "(m, g) \<in> (dep_rel d)\<^sup>+"
      proof (cases "g = n")
        case True
        with mn show ?thesis by blast
      next
        case False
        with g gray1 have "g \<in> gray s" by simp
        with gr have "(n, g) \<in> (dep_rel d)\<^sup>+" by blast
        with mn show ?thesis by (meson trancl_into_trancl2)
      qed
    qed
    from "1.IH" [OF False s1_def it ac inv1 pre]
    have inv2: "sched_inv d s2" and gray2: "gray s2 = gray s1"
      and deps2: "set (it (deps_get d n)) \<subseteq> set (schedule s2)"
      and mono2: "set (schedule s1) \<subseteq> set (schedule s2)"
      unfolding s2_def by blast+
    have n2: "n \<in> visited s2" "n \<notin> set (schedule s2)"
      using gray2 gray1 by (auto simp: gray_def)
    have deps_n: "set (deps_get d n) \<subseteq> set (schedule s2)"
      using deps2 it by simp
    have inv3: "sched_inv d (s2\<lparr>schedule := schedule s2 @ [n]\<rparr>)"
      unfolding sched_inv_def
    proof (intro conjI ballI)
      show "distinct (schedule (s2\<lparr>schedule := schedule s2 @ [n]\<rparr>))"
        using inv2 n2 by (simp add: sched_inv_def)
      show "set (schedule (s2\<lparr>schedule := schedule s2 @ [n]\<rparr>)) \<subseteq> visited (s2\<lparr>schedule := schedule s2 @ [n]\<rparr>)"
        using inv2 n2 by (auto simp: sched_inv_def)
    next
      fix x m
      assume x: "x \<in> set (schedule (s2\<lparr>schedule := schedule s2 @ [n]\<rparr>))"
        and m: "m \<in> set (deps_get d x)"
      show "precedes (schedule (s2\<lparr>schedule := schedule s2 @ [n]\<rparr>)) m x"
      proof (cases "x = n")
        case True
        with m deps_n show ?thesis by (auto intro: precedes_last)
      next
        case False
        with x have "x \<in> set (schedule s2)" by simp
        with inv2 m have "precedes (schedule s2) m x" by (auto simp: sched_inv_def)
        then show ?thesis by (simp add: precedes_append)
      qed
    qed
    have gray3: "gray (s2\<lparr>schedule := schedule s2 @ [n]\<rparr>) = gray s"
      using gray2 gray1 False n2 by (auto simp: gray_def)
    have mono3: "set (schedule s) \<subseteq> set (schedule s2 @ [n])"
      using mono2 by (auto simp: s1_def)
    show ?thesis
      unfolding v using inv3 gray3 mono3 by simp
  qed
next
  case (2 it d s)
  then show ?case by simp
next
  case (3 it d dep rest s)
  note it = "3.prems"(1) and ac = "3.prems"(2) and inv = "3.prems"(3) and gr = "3.prems"(4)
  define s' where "s' = visit it d dep s"
  from gr have gd: "\<forall>g \<in> gray s. (dep, g) \<in> (dep_rel d)\<^sup>+" by simp
  from "3.IH"(1) [OF it ac inv gd]
  have inv': "sched_inv d s'" and gray': "gray s' = gray s"
    and dep': "dep \<in> set (schedule s')" and mono': "set (schedule s) \<subseteq> set (schedule s')"
    unfolding s'_def by blast+
  from gr gray' have gr': "\<forall>g \<in> gray s'. \<forall>n \<in> set rest. (n, g) \<in> (dep_rel d)\<^sup>+" by simp
  from "3.IH"(2) [OF it ac inv' [unfolded s'_def] gr' [unfolded s'_def]]
  have "sched_inv d (visit_each it d rest s')" "gray (visit_each it d rest s') = gray s'"
    "set rest \<subseteq> set (schedule (visit_each it d rest s'))"
    "set (schedule s') \<subseteq> set (schedule (visit_each it d rest s'))"
    unfolding s'_def by blast+
  with gray' dep' mono' show ?case
    by (auto simp: s'_def)
qed

lemma fold_visit_inv:
  assumes it: "\<forall>xs. set (it xs) = set xs" and ac: "acyclic (dep_rel d)"
  shows "sched_inv d s \<Longrightarrow> gray s = {} \<Longrightarrow>
     sched_inv d (fold (visit it d) ns s) \<and> gray (fold (visit it d) ns s) = {}"
proof (induction ns arbitrary: s)
  case Nil
  then show ?case by simp
next
  case (Cons n ns)
  from Cons.prems(2) have "\<forall>g \<in> gray s. (n, g) \<in> (dep_rel d)\<^sup>+" by simp
  from visit_correct(1) [OF it ac Cons.prems(1) this] Cons.prems(2)
  have "sched_inv d (visit it d n s)" "gray (visit it d n s) = {}" by simp_all
  from Cons.IH [OF this] show ?case by simp
qed

lemma map_of_setdefault:
  "map_of (setdefault d k) x = (if x = k \<and> map_of d k = None then Some [] else map_of d x)"
  by (auto simp: setdefault_def map_add_def split: option.splits)

lemma map_of_set_add:
  "map_of (set_add d k v) x = (if x = k then map_option (List.insert v) (map_of d k) else map_of d x)"
  unfolding set_add_def by (induction d) auto

lemma deps_get_add_link:
  "set (deps_get (add_link l d) x) =
     set (deps_get d x) \<union> (if x = to_node l then {from_node l} else {})"
proof -
  let ?d1 = "setdefault d (to_node l)"
  let ?d2 = "set_add ?d1 (to_node l) (from_node l)"
  have d1: "deps_get ?d1 y = deps_get d y" and d1_to: "map_of ?d1 (to_node l) \<noteq> None" for y
    by (auto simp: deps_get_def map_of_setdefault)
  from d1_to obtain vs where vs: "map_of ?d1 (to_node l) = Some vs" by blast
  have d2: "set (deps_get ?d2 y) =
      set (deps_get ?d1 y) \<union> (if y = to_node l then {from_node l} else {})" for y
    using vs by (auto simp: deps_get_def map_of_set_add)
  have d3: "deps_get (setdefault ?d2 (from_node l)) y = deps_get ?d2 y" for y
    by (auto simp: deps_get_def map_of_setdefault)
  show ?thesis
    unfolding add_link_def d3 d2 d1 ..
qed

lemma deps_get_fold_add_link:
  "set (deps_get (fold add_link ls d) x) =
     set (deps_get d x) \<union> {from_node l | l. l \<in> set ls \<and> to_node l = x}"
proof (induction ls arbitrary: d)
  case Nil
  then show ?case by simp
next
  case (Cons l ls)
  show ?case
    unfolding fold_Cons comp_apply Cons.IH deps_get_add_link by auto
qed

lemma deps_get_fold_setdefault:
  "deps_get (fold (\<lambda>node_name d. setdefault d node_name) ns d) x = deps_get d x"
proof (induction ns arbitrary: d)
  case Nil
  then show ?case by simp
next
  case (Cons n ns)
  have "deps_get (setdefault d n) x = deps_get d x"
    by (auto simp: deps_get_def map_of_setdefault)
  with Cons.IH [of "setdefault d n"] show ?case by simp
qed

lemma dep_rel_build:
  "dep_rel (build_dependency_graph a) = (\<lambda>l. (from_node l, to_node l)) ` set (links a)"
  unfolding dep_rel_def build_dependency_graph_def deps_get_fold_add_link deps_get_fold_setdefault
  by (auto simp: deps_get_def)

lemma precedes_index:
  assumes "precedes S m x" "distinct S" "i < length S" "j < length S" "S ! i = x" "S ! j = m"
  shows "j < i"
proof -
  from assms(1) obtain S1 S2 where S: "S = S1 @ x # S2" and m: "m \<in> set S1"
    unfolding precedes_def by blast
  have "S ! length S1 = x" by (simp add: S)
  moreover have "length S1 < length S" by (simp add: S)
  ultimately have i: "i = length S1"
    using assms(2,3,5) by (metis nth_eq_iff_index_eq)
  from m obtain k where k: "k < length S1" "S1 ! k = m"
    by (auto simp: in_set_conv_nth)
  then have "S ! k = m" "k < length S" by (simp_all add: S nth_append)
  with assms(2,4,6) have "j = k" by (metis nth_eq_iff_index_eq)
  with k i show ?thesis by simp
qed

text \<open>
  Claim C1. For an analysis whose links form an acyclic relation (source node, destination
  node), and whatever order the loops run through the dependency sets in, the list
  \<open>compute_schedule\<close> returns has no node twice, and the source node of a link stands
  strictly before the link's destination node whenever both are in the list.
\<close>

theorem compute_schedule_valid:
  assumes it: "\<forall>xs. set (iter_order xs) = set xs"
    and ac: "acyclic ((\<lambda>l. (from_node l, to_node l)) ` set (links a))"
  shows "distinct (compute_schedule iter_order a) \<and>
    (\<forall>l \<in> set (links a). \<forall>i j.
       i < length (compute_schedule iter_order a) \<and> j < length (compute_schedule iter_order a) \<and>
       compute_schedule iter_order a ! i = to_node l \<and>
       compute_schedule iter_order a ! j = from_node l \<longrightarrow> j < i)"
proof -
  define d where "d = build_dependency_graph a"
  define s0 where "s0 = \<lparr>visited = {}, schedule = []\<rparr>"
  have ac': "acyclic (dep_rel d)"
    using ac by (simp add: d_def dep_rel_build)
  have inv0: "sched_inv d s0" and gray0: "gray s0 = {}"
    by (simp_all add: sched_inv_def gray_def s0_def)
  define outs where "outs = map fst (filter (\<lambda>(name, info).
      info_bl_idname info = ''ShaderNodeOutputMaterial'') (nodes a))"
  define ns where "ns = (if outs = [] then map fst (nodes a) else outs)"
  have cs: "compute_schedule iter_order a = schedule (fold (visit iter_order d) ns s0)"
    by (simp add: compute_schedule_def Let_def d_def s0_def ns_def outs_def)
  from fold_visit_inv [OF it ac' inv0 gray0, of ns]
  have inv: "sched_inv d (fold (visit iter_order d) ns s0)" by simp
  let ?S = "compute_schedule iter_order a"
  from inv have dist: "distinct ?S"
    and pre: "\<And>x m. x \<in> set ?S \<Longrightarrow> m \<in> set (deps_get d x) \<Longrightarrow> precedes ?S m x"
    unfolding sched_inv_def cs by blast+
  have "j < i" if l: "l \<in> set (links a)" and ij: "i < length ?S" "j < length ?S"
    "?S ! i = to_node l" "?S ! j = from_node l" for l i j
  proof -
    from l have "(from_node l, to_node l) \<in> dep_rel d"
      by (auto simp: d_def dep_rel_build)
    then have "from_node l \<in> set (deps_get d (to_node l))"
      by (simp add: dep_rel_def)
    moreover have "to_node l \<in> set ?S"
      using ij(1,3) nth_mem by metis
    ultimately have "precedes ?S (from_node l) (to_node l)"
      by (rule pre [rotated])
    from precedes_index [OF this dist ij] show ?thesis .
  qed
  with dist show ?thesis by blast
qed

lemma chain_deps: "build_dependency_graph chain_analysis = [(''Out'', [''BSDF'']), (''BSDF'', [''Tex'']), (''Tex'', [])]"
  by (simp add: build_dependency_graph_def chain_analysis_def mk_analysis_def mk_link_def
      add_link_def setdefault_def set_add_def)

theorem compute_schedule_valid_witness:
  "compute_schedule rev chain_analysis = [''Tex'', ''BSDF'', ''Out'']
   \<and> distinct (compute_schedule rev chain_analysis)"
proof -
  have h1: "\<forall>xs :: string list. set (rev xs) = set xs" by simp
  have h2: "acyclic ((\<lambda>l. (from_node l, to_node l)) ` set (links chain_analysis))"
  proof -
    have e: "acyclic ({} :: (string \<times> string) set)" by (simp add: acyclic_def)
    show ?thesis
      by (simp add: chain_analysis_def mk_analysis_def mk_link_def acyclic_insert rtrancl_insert e)
  qed
  have v: "compute_schedule rev chain_analysis = [''Tex'', ''BSDF'', ''Out'']"
    unfolding compute_schedule_def chain_deps
    by (simp add: chain_analysis_def mk_analysis_def mk_info_def visit.simps deps_get_def)
  from compute_schedule_valid [OF h1 h2] v show ?thesis by simp
qed

section \<open>Input-side resolution\<close>

text \<open>
  Claim C7. When no input socket of the target node is named exactly as a registry
  candidate, an identifier-keyed candidate or the source socket name, and some input
  socket's name matches a candidate or the source socket name up to case, then
  \<open>resolve_input_socket\<close> returns what the case-insensitive strategies compute (the
  candidates first, then the source name): a socket matching up to case, whatever the
  recorded socket index is, so the positional fallback is never reached.
\<close>

theorem resolve_input_socket_case_insensitive:
  fixes INPUT_MAP :: socket_map and cycles_type cycles_socket_name socket_identifier :: string
    and octane_node :: node and socket_index :: int
  defines "candidates \<equiv> candidates_of (type_map_of INPUT_MAP cycles_type) cycles_socket_name"
  defines "id_candidates \<equiv> candidates_of (type_map_of INPUT_MAP cycles_type) socket_identifier"
  assumes exact: "\<forall>s \<in> set (inputs octane_node).
        sock_name s \<notin> set candidates \<union> set id_candidates \<union> {cycles_socket_name}"
    and ci: "\<exists>s \<in> set (inputs octane_node). \<exists>c \<in> set candidates \<union> {cycles_socket_name}.
        lower (sock_name s) = lower c"
  shows "resolve_input_socket INPUT_MAP cycles_type cycles_socket_name octane_node
             socket_identifier socket_index
           = or_else (first_candidate (find_socket_case_insensitive (inputs octane_node)) candidates)
                     (find_socket_case_insensitive (inputs octane_node) cycles_socket_name)
       \<and> (\<exists>i c. resolve_input_socket INPUT_MAP cycles_type cycles_socket_name octane_node
                   socket_identifier socket_index = Some i
              \<and> i < length (inputs octane_node)
              \<and> c \<in> set candidates \<union> {cycles_socket_name}
              \<and> lower (sock_name (inputs octane_node ! i)) = lower c)"
proof -
  let ?ins = "inputs octane_node"
  let ?r = "or_else (first_candidate (find_socket_case_insensitive ?ins) candidates)
                     (find_socket_case_insensitive ?ins cycles_socket_name)"
  have get_none: "coll_get ?ins c = None"
    if "c \<in> set candidates \<union> set id_candidates \<union> {cycles_socket_name}" for c
    using exact that unfolding coll_get_def first_index_Nil_iff by blast
  have s1: "first_candidate (coll_get ?ins) candidates = None"
    by (simp add: first_candidate_None_iff get_none)
  have s2: "first_candidate (coll_get ?ins) id_candidates = None"
    by (simp add: first_candidate_None_iff get_none)
  have s3: "coll_get ?ins cycles_socket_name = None"
    by (simp add: get_none)
  have r_some: "?r \<noteq> None"
  proof
    assume "?r = None"
    then have a: "\<forall>c \<in> set candidates. find_socket_case_insensitive ?ins c = None"
      and b: "find_socket_case_insensitive ?ins cycles_socket_name = None"
      by (simp_all add: or_else_None_iff first_candidate_None_iff)
    then have "\<forall>c \<in> set candidates \<union> {cycles_socket_name}. \<forall>s \<in> set ?ins.
        lower (sock_name s) \<noteq> lower c"
      by (auto simp: find_socket_case_insensitive_def first_index_Nil_iff)
    with ci show False by blast
  qed
  then obtain i where i: "?r = Some i" by blast
  have eq: "resolve_input_socket INPUT_MAP cycles_type cycles_socket_name octane_node
             socket_identifier socket_index = ?r"
    using i s1 s2 s3
    unfolding resolve_input_socket_def Let_def candidates_def id_candidates_def
    by (auto simp: or_else_def split: option.splits)
  have "\<exists>c \<in> set candidates \<union> {cycles_socket_name}. find_socket_case_insensitive ?ins c = Some i"
  proof (cases "first_candidate (find_socket_case_insensitive ?ins) candidates")
    case None
    with i show ?thesis by simp
  next
    case (Some k)
    with i have "k = i" by simp
    with Some first_candidate_Some show ?thesis by fastforce
  qed
  then obtain c where c: "c \<in> set candidates \<union> {cycles_socket_name}"
      "find_socket_case_insensitive ?ins c = Some i" by blast
  from first_index_Some [OF c(2) [unfolded find_socket_case_insensitive_def Let_def]]
  have "i < length ?ins" "lower (sock_name (?ins ! i)) = lower c" by auto
  with c(1) eq i show ?thesis by auto
qed


theorem resolve_input_socket_case_insensitive_witness:
  "resolve_input_socket INPUT_MAP_mix ''ShaderNodeMixShader'' ''Fac'' upper_mix_node ''Fac'' 0
     = Some 1"
proof -
  have cands: "candidates_of (type_map_of INPUT_MAP_mix ''ShaderNodeMixShader'') ''Fac''
      = [''Amount'', ''Factor'']"
    by (simp add: candidates_of_def type_map_of_def INPUT_MAP_mix_def)
  have h1: "\<forall>s \<in> set (inputs upper_mix_node).
      sock_name s \<notin> set (candidates_of (type_map_of INPUT_MAP_mix ''ShaderNodeMixShader'') ''Fac'')
        \<union> set (candidates_of (type_map_of INPUT_MAP_mix ''ShaderNodeMixShader'') ''Fac'')
        \<union> {''Fac''}"
    by (simp add: cands upper_mix_node_def mk_socket_def)
  have h2: "\<exists>s \<in> set (inputs upper_mix_node).
      \<exists>c \<in> set (candidates_of (type_map_of INPUT_MAP_mix ''ShaderNodeMixShader'') ''Fac'')
        \<union> {''Fac''}. lower (sock_name s) = lower c"
    by (simp add: cands upper_mix_node_def mk_socket_def lower_def lower_char_def)
  from resolve_input_socket_case_insensitive [OF h1 h2, of 0]
  show ?thesis
    by (simp add: cands upper_mix_node_def mk_socket_def find_socket_case_insensitive_def
        lower_def lower_char_def)
qed

section \<open>Emission detection\<close>

text \<open>
  Claim C5. The analysis of a principled node should set \<open>has_emission\<close> for a nonzero
  emission colour or a nonzero emission strength. The walk tests the colour only: for
  the node with a black emission colour and emission strength 5 the flag stays false.
\<close>

theorem analyze_nodes_ignores_emission_strength:
  "analyze_nodes (\<lambda>n. []) [strength_only_node] empty_analysis
     = Inr (empty_analysis\<lparr>nodes := [(''Principled BSDF'',
                snapshot_node (\<lambda>n. []) strength_only_node)]\<rparr>)
   \<and> \<not> has_emission (empty_analysis\<lparr>nodes := [(''Principled BSDF'',
                snapshot_node (\<lambda>n. []) strength_only_node)]\<rparr>)"
  by (simp add: strength_only_node_def mk_socket_def empty_analysis_def TRANSPARENT_TYPES_def
      detect_patterns_def detect_principled_def detect_transmission_def detect_emission_def
      detect_subsurface_def detect_by_type_def input_get2_def coll_get_def
      getattr_default_value_def any_positive3_def dict_set_def Let_def)


section \<open>The transmission threshold of the principled rule\<close>
























lemma fold_dict_set_fresh:
  "distinct (map fst d0 @ map k socks) \<Longrightarrow>
     fold (\<lambda>sock d. dict_set d (k sock) (f sock)) socks d0 = d0 @ map (\<lambda>s. (k s, f s)) socks"
proof (induction socks arbitrary: d0)
  case Nil
  then show ?case by simp
next
  case (Cons s socks)
  from Cons.prems have "k s \<notin> fst ` set d0" by auto
  then have "map_of d0 (k s) = None" by (simp add: map_of_eq_None_iff)
  then have step: "dict_set d0 (k s) (f s) = d0 @ [(k s, f s)]" by (simp add: dict_set_def)
  from Cons.prems have "distinct (map fst (d0 @ [(k s, f s)]) @ map k socks)" by auto
  from Cons.IH [OF this] step show ?case by simp
qed

lemma map_of_sockets:
  "map_of (map (\<lambda>s. (k s, f s)) socks) key =
     (case first_index (\<lambda>s. k s = key) socks of Some i \<Rightarrow> Some (f (socks ! i)) | None \<Rightarrow> None)"
  by (induction socks) (auto split: option.splits)

lemma dict_get_snapshot:
  assumes "\<forall>s \<in> set socks. sock_identifier s = sock_name s" "distinct (map sock_name socks)"
  shows "dict_get (snapshot_sockets socks) name =
     (case coll_get socks name of Some i \<Rightarrow> default_value (socks ! i) | None \<Rightarrow> None)"
proof -
  from assms have ids: "map sock_identifier socks = map sock_name socks" by simp
  have "distinct (map sock_identifier socks)"
    using assms(2) unfolding ids .
  then have "distinct (map fst [] @ map sock_identifier socks)" by simp
  from fold_dict_set_fresh [OF this, of snapshot_default]
  have snap: "snapshot_sockets socks = map (\<lambda>s. (sock_identifier s, snapshot_default s)) socks"
    by (simp add: snapshot_sockets_def)
  have fi: "first_index (\<lambda>s. sock_identifier s = name) socks = coll_get socks name"
    unfolding coll_get_def using assms(1) by (induction socks) auto
  show ?thesis
    unfolding snap dict_get_def map_of_sockets fi
    by (auto simp: snapshot_default_def split: option.splits)
qed

lemma reverse_lookup_Some:
  "reverse_lookup ins idents name = Some v \<Longrightarrow>
     \<exists>identifier. (identifier, name) \<in> set idents \<and> dict_get ins identifier = Some v"
  by (induction ins idents name rule: reverse_lookup.induct) (auto split: if_splits option.splits)

lemma get_input_value_snapshot:
  assumes ids: "\<forall>s \<in> set (inputs src). sock_identifier s = sock_name s"
    and dist: "distinct (map sock_name (inputs src))"
  shows "get_input_value (snapshot_node sp src) name None = val_at src name"
proof -
  let ?ins = "snapshot_sockets (inputs src)"
  from ids have m: "map sock_identifier (inputs src) = map sock_name (inputs src)" by simp
  have "distinct (map sock_identifier (inputs src))"
    using dist unfolding m .
  then have "distinct (map fst [] @ map sock_identifier (inputs src))" by simp
  from fold_dict_set_fresh [OF this, of sock_name]
  have idents: "snapshot_identifiers (inputs src)
      = map (\<lambda>s. (sock_identifier s, sock_name s)) (inputs src)"
    by (simp add: snapshot_identifiers_def)
  have direct: "dict_get ?ins name = val_at src name"
    by (simp add: dict_get_snapshot [OF ids dist] val_at_def)
  have rev: "reverse_lookup ?ins (snapshot_identifiers (inputs src)) name = None"
    if none: "dict_get ?ins name = None"
  proof (rule ccontr)
    assume "reverse_lookup ?ins (snapshot_identifiers (inputs src)) name \<noteq> None"
    then obtain v where "reverse_lookup ?ins (snapshot_identifiers (inputs src)) name = Some v"
      by blast
    from reverse_lookup_Some [OF this] obtain idf
      where i: "(idf, name) \<in> set (snapshot_identifiers (inputs src))"
        and g: "dict_get ?ins idf = Some v" by blast
    from i ids have "idf = name" unfolding idents by auto
    with g none show False by simp
  qed
  show ?thesis
    unfolding get_input_value_def
    using direct rev by (auto simp: snapshot_node_def split: option.splits)
qed













lemma snapshot_principled_with:
  "get_input_value (snapshot_node sp (principled_with w)) name None
     = val_at (principled_with w) name"
  by (rule get_input_value_snapshot) (simp_all add: example_node_defs)

lemma val_at_principled_with:
  "val_at (principled_with w) name =
     map_of [(''Base Color'', Seq [8/10, 2/10, 1/10, 1]), (''Metallic'', Num 0),
             (''Roughness'', Num (1/2)), (''Transmission Weight'', Num w),
             (''Emission Color'', Seq [0, 0, 0, 1]), (''Emission Strength'', Num 0)] name"
  by (simp add: example_node_defs val_at_def coll_get_def)

lemmas rule_eval = transfer_principled_def simple_transfers_def transfer_simple_def
  transfer_emission_part_def transfer_transmission_part_def transfer_subsurface_part_def
  snapshot_principled_with val_at_principled_with then_do_def write_input_def put_prop_def
  set_prop_def set_input.simps coll_get_def float_socket_def color_socket_def
  emission_cols_def Let_def




text \<open>
  The rule stops where the host refuses an assignment with an exception other than
  \<open>TypeError\<close> and \<open>AttributeError\<close>: on a target whose \<open>Transmission\<close> input is a
  colour socket the weight 0.6 raises \<open>ValueError\<close> before the base-colour socket is
  blackened, so that socket still holds the base colour of the simple transfer.
\<close>

lemma transfer_principled_tinted_raises:
  "fst (transfer_principled (snapshot_node sp (principled_with (6/10))) tinted_material)
     = Some ValueError
   \<and> val_at (snd (transfer_principled (snapshot_node sp (principled_with (6/10)))
        tinted_material)) ''Albedo color'' = Some (Seq [8/10, 2/10, 1/10, 1])
   \<and> writable tinted_material ''Albedo color'' (Seq [0, 0, 0, 1])
   \<and> writable tinted_material ''Albedo color'' (Seq [8/10, 2/10, 1/10, 1])
   \<and> writable tinted_material ''Transmission color'' (Seq [8/10, 2/10, 1/10, 1])"
proof -
  have "fst (transfer_principled (snapshot_node sp (principled_with (6/10))) tinted_material)
     = Some ValueError"
    by (simp add: rule_eval tinted_material_def)
  moreover have "val_at (snd (transfer_principled (snapshot_node sp (principled_with (6/10)))
        tinted_material)) ''Albedo color'' = Some (Seq [8/10, 2/10, 1/10, 1])"
    by (simp add: rule_eval tinted_material_def, simp add: val_at_def coll_get_def)
  moreover have "writable tinted_material ''Albedo color'' (Seq [0, 0, 0, 1])"
    "writable tinted_material ''Albedo color'' (Seq [8/10, 2/10, 1/10, 1])"
    "writable tinted_material ''Transmission color'' (Seq [8/10, 2/10, 1/10, 1])"
    by (simp_all add: writable_def coll_get_def tinted_material_def color_socket_def)
  ultimately show ?thesis by simp
qed


section \<open>The mix-shader slots are swapped\<close>

lemma fold_remove1_filter:
  "\<forall>z \<in> set zs. \<not> P z \<Longrightarrow>
     fold remove1 (filter P xs) (zs @ xs) = zs @ filter (\<lambda>x. \<not> P x) xs"
proof (induction xs arbitrary: zs)
  case Nil
  then show ?case by simp
next
  case (Cons x xs)
  show ?case
  proof (cases "P x")
    case True
    with Cons.prems have "x \<notin> set zs" by blast
    then have "remove1 x (zs @ x # xs) = zs @ xs" by (simp add: remove1_append)
    with True Cons.IH [OF Cons.prems] show ?thesis by simp
  next
    case False
    with Cons.prems have "\<forall>z \<in> set (zs @ [x]). \<not> P z" by simp
    from Cons.IH [OF this] False show ?thesis by simp
  qed
qed

lemma fold_links_remove:
  "fold links_remove ls t = t\<lparr>tree_links := fold remove1 ls (tree_links t)\<rparr>"
  by (induction ls arbitrary: t) (simp_all add: links_remove_def)

lemma remove_socket_links:
  "fold links_remove (socket_links t s) t
     = t\<lparr>tree_links := filter (\<lambda>l. link_to l \<noteq> s) (tree_links t)\<rparr>"
  using fold_remove1_filter [of "[]" "\<lambda>l. link_to l = s" "tree_links t"]
  by (simp add: fold_links_remove socket_links_def)

lemma socket_links_removed:
  "socket_links (t\<lparr>tree_links := filter (\<lambda>l. link_to l \<noteq> s) (tree_links t)\<rparr>) s'
     = (if s' = s then [] else socket_links t s')"
  by (auto simp: socket_links_def filter_empty_conv intro: filter_cong)

lemma socket_links_new:
  "socket_links (links_new f s t) s'
     = (if s' = s then [\<lparr>link_from = f, link_to = s\<rparr>] else socket_links t s')"
  by (auto simp: socket_links_def links_new_def filter_empty_conv intro: filter_cong)

lemma first_candidate_name:
  "first_candidate (coll_get ins) names = Some i \<Longrightarrow> i < length ins \<and> sock_name (ins ! i) \<in> set names"
proof -
  assume "first_candidate (coll_get ins) names = Some i"
  from first_candidate_Some [OF this] obtain c where "c \<in> set names" "coll_get ins c = Some i"
    by blast
  moreover from this(2) have "i < length ins \<and> sock_name (ins ! i) = c"
    unfolding coll_get_def by (auto dest: first_index_Some)
  ultimately show ?thesis by simp
qed

lemma mix_slots_distinct: "mix_slots nd = Some (i1, i2) \<Longrightarrow> i1 \<noteq> i2"
proof -
  assume m: "mix_slots nd = Some (i1, i2)"
  show ?thesis
  proof (cases "first_candidate (coll_get (inputs nd)) [''Material1'', ''Shader1'', ''Material 1'']")
    case None
    with m show ?thesis by (auto simp: mix_slots_def split: if_splits)
  next
    case s1: (Some a)
    show ?thesis
    proof (cases "first_candidate (coll_get (inputs nd)) [''Material2'', ''Shader2'', ''Material 2'']")
      case None
      with m s1 show ?thesis by (auto simp: mix_slots_def split: if_splits)
    next
      case s2: (Some b)
      with m s1 have "i1 = a" "i2 = b" by (simp_all add: mix_slots_def)
      with first_candidate_name [OF s1] first_candidate_name [OF s2] show ?thesis by auto
    qed
  qed
qed

lemma socket_links_cleared:
  "socket_links (clear_socket s t) s' = (if s' = s then [] else socket_links t s')"
  unfolding clear_socket_def remove_socket_links by (rule socket_links_removed)

lemma tree_nodes_cleared: "tree_nodes (clear_socket s t) = tree_nodes t"
  by (simp add: clear_socket_def fold_links_remove)

lemma tree_nodes_new: "tree_nodes (links_new f s t) = tree_nodes t"
  by (simp add: links_new_def)

lemma fix_mix_node_nodes: "tree_nodes (fix_mix_node nm item t) = tree_nodes t"
  by (simp add: fix_mix_node_def Let_def tree_nodes_cleared tree_nodes_new
      split: option.splits prod.splits)

lemma fix_mix_node_other:
  assumes "map_of nm (fst item) \<noteq> Some h"
  shows "socket_links (fix_mix_node nm item t) (h, i) = socket_links t (h, i)"
proof (cases "info_bl_idname (snd item) \<noteq> ''ShaderNodeMixShader''")
  case True
  then show ?thesis by (simp add: fix_mix_node_def)
next
  case mix: False
  show ?thesis
  proof (cases "map_of nm (fst item)")
    case None
    with mix show ?thesis by (simp add: fix_mix_node_def)
  next
    case (Some h')
    with assms have ne: "h' \<noteq> h" by simp
    show ?thesis
    proof (cases "map_of (tree_nodes t) h'")
      case None
      with mix Some show ?thesis by (simp add: fix_mix_node_def)
    next
      case nd: (Some oct_node)
      show ?thesis
      proof (cases "mix_slots oct_node")
        case None
        with mix Some nd show ?thesis by (simp add: fix_mix_node_def)
      next
        case sl: (Some p)
        obtain i1 i2 where p: "p = (i1, i2)" by (cases p)
        show ?thesis
          using mix Some nd sl ne
          by (simp add: fix_mix_node_def p Let_def socket_links_cleared
              socket_links_new split: option.splits)
      qed
    qed
  qed
qed

lemma fix_mix_node_swaps:
  assumes mix: "info_bl_idname (snd item) = ''ShaderNodeMixShader''"
    and h: "map_of nm (fst item) = Some h"
    and nd: "map_of (tree_nodes t) h = Some oct_node"
    and sl: "mix_slots oct_node = Some (i1, i2)"
  shows "map link_from (socket_links (fix_mix_node nm item t) (h, i2))
           = (case first_from (socket_links t (h, i1)) of None \<Rightarrow> [] | Some f \<Rightarrow> [f])
       \<and> map link_from (socket_links (fix_mix_node nm item t) (h, i1))
           = (case first_from (socket_links t (h, i2)) of None \<Rightarrow> [] | Some f \<Rightarrow> [f])"
proof -
  from mix_slots_distinct [OF sl] have ne: "i1 \<noteq> i2" .
  have none: "first_from ls = None \<longleftrightarrow> ls = []" for ls
    by (simp add: first_from_def split: list.splits)
  show ?thesis
  proof (cases "first_from (socket_links t (h, i1)) = None \<and> first_from (socket_links t (h, i2)) = None")
    case True
    then have "fix_mix_node nm item t = t"
      using mix h nd sl by (simp add: fix_mix_node_def)
    with True show ?thesis by (simp add: none) (simp add: first_from_def)
  next
    case False
    then show ?thesis
      using mix h nd sl ne
      by (auto simp: fix_mix_node_def Let_def socket_links_cleared
          socket_links_new split: option.splits)
  qed
qed

lemma fold_fix_mix_node_other:
  "\<forall>item \<in> set items. map_of nm (fst item) \<noteq> Some h \<Longrightarrow>
     socket_links (fold (fix_mix_node nm) items t) (h, i) = socket_links t (h, i)"
  by (induction items arbitrary: t) (simp_all add: fix_mix_node_other)

lemma fold_fix_mix_node_nodes: "tree_nodes (fold (fix_mix_node nm) items t) = tree_nodes t"
  by (induction items arbitrary: t) (simp_all add: fix_mix_node_nodes)

text \<open>
  Claim C8. Let a source mix-shader node be lowered to a target node of its own, with
  material inputs \<open>slot1\<close> and \<open>slot2\<close> as \<open>_fix_mix_shader_links\<close> finds them. After
  the post-processor, the second slot is fed by exactly the output that fed the first
  slot before (by nothing when the first slot was unlinked), and the first slot by
  exactly the output that fed the second.
\<close>

theorem fix_mix_shader_links_swaps:
  assumes keys: "distinct (map fst (nodes a))"
    and item: "(name, info) \<in> set (nodes a)"
    and mix: "info_bl_idname info = ''ShaderNodeMixShader''"
    and h: "map_of node_map name = Some h"
    and only: "\<forall>other. map_of node_map other = Some h \<longrightarrow> other = name"
    and nd: "map_of (tree_nodes t) h = Some oct_node"
    and sl: "mix_slots oct_node = Some (slot1, slot2)"
  shows "map link_from (socket_links (fix_mix_shader_links a node_map t) (h, slot2))
           = (case first_from (socket_links t (h, slot1)) of None \<Rightarrow> [] | Some A \<Rightarrow> [A])
       \<and> map link_from (socket_links (fix_mix_shader_links a node_map t) (h, slot1))
           = (case first_from (socket_links t (h, slot2)) of None \<Rightarrow> [] | Some B \<Rightarrow> [B])"
proof -
  from item obtain xs ys where split: "nodes a = xs @ (name, info) # ys"
    by (auto simp: in_set_conv_decomp)
  with keys have fresh: "name \<notin> fst ` set xs" "name \<notin> fst ` set ys" by auto
  have other: "\<forall>it \<in> set zs. map_of node_map (fst it) \<noteq> Some h" if "name \<notin> fst ` set zs" for zs
    using that only by force
  define t1 where "t1 = fold (fix_mix_node node_map) xs t"
  define t2 where "t2 = fix_mix_node node_map (name, info) t1"
  have res: "fix_mix_shader_links a node_map t = fold (fix_mix_node node_map) ys t2"
    by (simp add: fix_mix_shader_links_def split t1_def t2_def)
  have l1: "socket_links t1 (h, i) = socket_links t (h, i)" for i
    unfolding t1_def by (rule fold_fix_mix_node_other [OF other [OF fresh(1)]])
  have nd1: "map_of (tree_nodes t1) h = Some oct_node"
    by (simp add: t1_def fold_fix_mix_node_nodes nd)
  have l3: "socket_links (fold (fix_mix_node node_map) ys t2) (h, i) = socket_links t2 (h, i)" for i
    by (rule fold_fix_mix_node_other [OF other [OF fresh(2)]])
  from fix_mix_node_swaps [of "(name, info)" node_map h t1 oct_node slot1 slot2] mix h nd1 sl
  have "map link_from (socket_links t2 (h, slot2))
           = (case first_from (socket_links t (h, slot1)) of None \<Rightarrow> [] | Some A \<Rightarrow> [A])
       \<and> map link_from (socket_links t2 (h, slot1))
           = (case first_from (socket_links t (h, slot2)) of None \<Rightarrow> [] | Some B \<Rightarrow> [B])"
    unfolding t2_def l1 by simp
  then show ?thesis
    unfolding res l3 .
qed

theorem fix_mix_shader_links_swaps_witness:
  "map link_from (socket_links (fix_mix_shader_links mix_analysis mix_node_map mix_tree) (2, 2))
     = [(0, 0)]
   \<and> map link_from (socket_links (fix_mix_shader_links mix_analysis mix_node_map mix_tree) (2, 1))
     = [(1, 0)]"
proof -
  have keys: "distinct (map fst (nodes mix_analysis))"
    by (simp add: mix_analysis_def mk_analysis_def)
  have item: "(''Mix'', mk_info ''Mix'' ''ShaderNodeMixShader'') \<in> set (nodes mix_analysis)"
    by (simp add: mix_analysis_def mk_analysis_def)
  have mix: "info_bl_idname (mk_info ''Mix'' ''ShaderNodeMixShader'') = ''ShaderNodeMixShader''"
    by (simp add: mk_info_def)
  have h: "map_of mix_node_map ''Mix'' = Some 2"
    by (simp add: mix_node_map_def)
  have only: "\<forall>other. map_of mix_node_map other = Some 2 \<longrightarrow> other = ''Mix''"
    by (simp add: mix_node_map_def)
  have nd: "map_of (tree_nodes mix_tree) 2 = Some mix_material_node"
    by (simp add: mix_tree_def)
  have sl: "mix_slots mix_material_node = Some (1, 2)"
    by (simp add: mix_slots_def mix_material_node_def mk_socket_def float_socket_def coll_get_def)
  from fix_mix_shader_links_swaps [OF keys item mix h only nd sl]
  show ?thesis
    by (simp add: mix_tree_def socket_links_def first_from_def)
qed

section \<open>One material: the copy, and the engine that is not built\<close>

lemma fold_max_ge: "x \<in> set xs \<Longrightarrow> x \<le> fold max xs (a::nat)"
proof (induction xs arbitrary: a)
  case Nil
  then show ?case by simp
next
  case (Cons y ys)
  have mono: "b \<le> fold max ys b" for b :: nat
    by (induction ys arbitrary: b) (auto intro: order_trans [OF max.cobounded2])
  show ?case
  proof (cases "x = y")
    case True
    have "y \<le> max y a" by simp
    also have "\<dots> \<le> fold max ys (max y a)" by (rule mono)
    finally show ?thesis using True by simp
  next
    case False
    with Cons.prems have "x \<in> set ys" by simp
    from Cons.IH [OF this] show ?thesis by simp
  qed
qed

lemma fresh_handle_new: "fresh_handle s \<notin> fst ` set (materials s)"
proof
  assume "fresh_handle s \<in> fst ` set (materials s)"
  then have "fresh_handle s \<in> set (map fst (materials s))" by simp
  from fold_max_ge [OF this, of 0] show False by (simp add: fresh_handle_def)
qed

lemma map_of_update_material:
  "map_of (materials (update_material h f s)) h'
     = (if h' = h then map_option f (map_of (materials s) h) else map_of (materials s) h')"
proof -
  have "map_of (map (\<lambda>hm. if fst hm = h then (fst hm, f (snd hm)) else hm) ms) h'
      = (if h' = h then map_option f (map_of ms h) else map_of ms h')" for ms
    by (induction ms) auto
  then show ?thesis by (simp add: update_material_def)
qed

lemma map_of_material_copy:
  "h \<noteq> fresh_handle s \<Longrightarrow> map_of (materials (snd (material_copy m s))) h = map_of (materials s) h"
  by (auto simp: material_copy_def map_add_def split: option.splits)

lemma update_material_other: "cache (update_material h f s) = cache s" "objects (update_material h f s) = objects s"
  by (simp_all add: update_material_def)

lemma GraphEngine_init_keyword: "GraphEngine_init analysis [''group_converter_cb''] = Inl TypeError"
  by (simp add: GraphEngine_init_def)

text \<open>What \<open>convert_material\<close> does with a material that has a tree and is not cached.\<close>

lemma convert_material_uncached:
  assumes m: "map_of (materials s) h = Some m" and t: "mat_node_tree m = Some tree"
    and c: "\<not> has_material (cache s) (mat_name m)"
    and a: "analyze_tree p tree = Inr analysis"
  shows "convert_material p (Some h) gamma obj s =
     (Inl TypeError,
      update_material (fresh_handle s)
        (\<lambda>c. c\<lparr>mat_node_tree := map_option clear_tree_except_output (mat_node_tree c)\<rparr>)
        (update_material (fresh_handle s) (\<lambda>c. c\<lparr>use_nodes := True\<rparr>)
          (update_material (fresh_handle s) (\<lambda>c. c\<lparr>mat_name := mat_name m @ ''_OCTANE''\<rparr>)
            (s\<lparr>materials := materials s @ [(fresh_handle s, m)]\<rparr>))))"
  by (simp add: convert_material_def m t c a material_copy_def GraphEngine_init_keyword)

text \<open>
  The first three steps of \<open>convert_material\<close> (the copy, its renaming, the clearing of
  its tree) act on the fresh handle of the copy: the entry of the material passed in is
  the same after the call, on every path the call takes here. The lowering steps are not
  reached, since building the engine raises, so this says nothing about them.
\<close>

lemma convert_material_keeps_source:
  "map_of (materials (snd (convert_material p (Some h) gamma_value obj s))) h
     = map_of (materials s) h"
proof (cases "map_of (materials s) h")
  case None
  then show ?thesis by (simp add: convert_material_def)
next
  case (Some m)
  then have "h \<in> fst ` set (materials s)"
    by (metis domI dom_map_of_conv_image_fst)
  with fresh_handle_new [of s] have ne: "h \<noteq> fresh_handle s" by metis
  show ?thesis
  proof (cases "mat_node_tree m")
    case None
    with Some show ?thesis by (simp add: convert_material_def)
  next
    case tree: (Some tree)
    show ?thesis
    proof (cases "has_material (cache s) (mat_name m)")
      case True
      with Some tree show ?thesis
        by (simp add: convert_material_def split: option.splits)
    next
      case False
      show ?thesis
      proof (cases "analyze_tree p tree")
        case (Inl e)
        with Some tree False show ?thesis by (simp add: convert_material_def)
      next
        case (Inr analysis)
        from convert_material_uncached [OF Some tree False Inr] ne Some
        show ?thesis
          by (simp add: map_of_update_material map_add_def)
      qed
    qed
  qed
qed

section \<open>The cache is never filled\<close>

lemma analyze_simple_tree:
  "\<exists>analysis. analyze_tree node_walk_pipeline simple_tree = Inr analysis"
  by (simp add: node_walk_pipeline_def simple_tree_def output_node_def example_node_defs
      empty_analysis_def TRANSPARENT_TYPES_def
      detect_patterns_def detect_principled_def detect_transmission_def detect_emission_def
      detect_subsurface_def detect_by_type_def input_get2_def coll_get_def py_gt_def
      getattr_default_value_def any_positive3_def dict_set_def Let_def)

lemma convert_material_raises:
  assumes m: "map_of (materials s) h = Some m" and t: "mat_node_tree m = Some tree"
    and c: "cache s = []"
    and a: "analyze_tree p tree = Inr analysis"
  shows "fst (convert_material p (Some h) gamma obj s) = Inl TypeError"
    and "cache (snd (convert_material p (Some h) gamma obj s)) = []"
    and "objects (snd (convert_material p (Some h) gamma obj s)) = objects s"
    and "map fst (materials (snd (convert_material p (Some h) gamma obj s)))
           = map fst (materials s) @ [fresh_handle s]"
    and "h' \<noteq> fresh_handle s \<Longrightarrow>
           map_of (materials (snd (convert_material p (Some h) gamma obj s))) h'
             = map_of (materials s) h'"
proof -
  have nc: "\<not> has_material (cache s) (mat_name m)" by (simp add: has_material_def c)
  note eq = convert_material_uncached [OF m t nc a, of gamma obj]
  show "fst (convert_material p (Some h) gamma obj s) = Inl TypeError"
    by (simp add: eq)
  show "cache (snd (convert_material p (Some h) gamma obj s)) = []"
    by (simp add: eq update_material_other c)
  show "objects (snd (convert_material p (Some h) gamma obj s)) = objects s"
    by (simp add: eq update_material_other)
  have keys: "map fst (materials (update_material k f s')) = map fst (materials s')" for k f s'
    by (simp add: update_material_def comp_def)
  show "map fst (materials (snd (convert_material p (Some h) gamma obj s)))
           = map fst (materials s) @ [fresh_handle s]"
    by (simp add: eq keys)
  show "map_of (materials (snd (convert_material p (Some h) gamma obj s))) h'
             = map_of (materials s) h'" if "h' \<noteq> fresh_handle s"
    using that by (auto simp: eq map_of_update_material map_add_def split: option.splits)
qed

text \<open>
  Claim C4. Converting the same material twice in one batch should return the same target
  material both times and run the pipeline once. For the material \<open>Glass\<close> of the
  example scene the first call raises \<open>TypeError\<close> (the engine is built with a keyword its
  constructor does not take) and registers nothing in the cache; the second call raises
  again, and each call has left a copy of the material behind.
\<close>

theorem convert_material_twice_raises:
  "fst (convert_material node_walk_pipeline (Some 0) (22/10) (Some 0) batch_state) = Inl TypeError
   \<and> cache (snd (convert_material node_walk_pipeline (Some 0) (22/10) (Some 0) batch_state)) = []
   \<and> fst (convert_material node_walk_pipeline (Some 0) (22/10) (Some 0)
        (snd (convert_material node_walk_pipeline (Some 0) (22/10) (Some 0) batch_state)))
       = Inl TypeError
   \<and> map fst (materials (snd (convert_material node_walk_pipeline (Some 0) (22/10) (Some 0)
        (snd (convert_material node_walk_pipeline (Some 0) (22/10) (Some 0) batch_state)))))
       = [0, 1, 2, 3, 4]"
proof -
  let ?P = node_walk_pipeline
  define m where "m = \<lparr>mat_name = ''Glass'', mat_node_tree = Some simple_tree, use_nodes = True\<rparr>"
  obtain analysis where a: "analyze_tree ?P simple_tree = Inr analysis"
    using analyze_simple_tree by blast
  define s1 where "s1 = snd (convert_material ?P (Some 0) (22/10) (Some 0) batch_state)"
  have m0: "map_of (materials batch_state) 0 = Some m" and t: "mat_node_tree m = Some simple_tree"
    and c0: "cache batch_state = []"
    by (simp_all add: batch_state_def m_def)
  have f0: "fresh_handle batch_state = 3"
    by (simp add: fresh_handle_def batch_state_def)
  note r1 = convert_material_raises [OF m0 t c0 a, where gamma = "22/10" and obj = "Some 0",
      folded s1_def]
  have k1: "map fst (materials s1) = [0, 1, 2, 3]"
    using r1(4) unfolding f0 by (simp add: batch_state_def)
  have m1: "map_of (materials s1) 0 = Some m"
    using r1(5) [of 0] m0 by (simp add: f0)
  have f1: "fresh_handle s1 = 4"
    by (simp add: fresh_handle_def k1)
  note r2 = convert_material_raises [OF m1 t r1(2) a, where gamma = "22/10" and obj = "Some 0"]
  have e4: "map fst (materials (snd (convert_material ?P (Some 0) (22/10) (Some 0) s1)))
      = [0, 1, 2, 3, 4]"
    using r2(4) by (simp add: k1 f1)
  from r1(1,2) r2(1) e4 show ?thesis
    unfolding s1_def by simp
qed

section \<open>Scale correction\<close>

text \<open>
  Claim C6. With a non-unit object scale the scale socket of every lowered Mapping node
  should end multiplied by the object's scale. The \<open>_apply_scale_correction\<close> that
  \<open>convert_material\<close> calls is the second definition, which does nothing: for the
  object scaled by (2, 3, 4) the Mapping node's scale stays (1, 1, 1), where the first,
  shadowed definition returns without an exception and gives (2, 3, 4).
\<close>

theorem apply_scale_correction_does_nothing:
  "apply_scale_correction (Some scaled_object) mapping_node_map mapping_analysis mapping_tree
     = mapping_tree
   \<and> map (\<lambda>hn. val_at (snd hn) ''Scale'')
         (tree_nodes (apply_scale_correction (Some scaled_object) mapping_node_map
            mapping_analysis mapping_tree))
       = [Some (Seq [1, 1, 1])]
   \<and> fst (apply_scale_correction_shadowed (Some scaled_object) mapping_node_map
            mapping_analysis mapping_tree) = None
   \<and> map (\<lambda>hn. val_at (snd hn) ''Scale'')
         (tree_nodes (snd (apply_scale_correction_shadowed (Some scaled_object) mapping_node_map
            mapping_analysis mapping_tree)))
       = [Some (Seq [2, 3, 4])]"
  by (simp add: apply_scale_correction_def apply_scale_correction_shadowed_def
      scaled_object_def mapping_node_map_def mapping_analysis_def mapping_tree_def
      mk_analysis_def mk_info_def transform_node_def vector_socket_def mk_socket_def
      scale_node_def or_else_def val_at_def coll_get_def Let_def)

section \<open>An error ends the batch\<close>

lemma convert_slots_append:
  "convert_slots p k g (pre @ rest) converted s =
     (case convert_slots p k g pre converted s of
        (Inl e, s') \<Rightarrow> (Inl e, s')
      | (Inr converted', s') \<Rightarrow> convert_slots p k g rest converted' s')"
proof (induction pre arbitrary: converted s)
  case Nil
  then show ?case by simp
next
  case (Cons i pre)
  show ?case
  proof (cases "slot_material s k i")
    case None
    with Cons.IH show ?thesis by simp
  next
    case (Some mat)
    obtain r s' where c: "convert_material p (Some mat) g (Some k) s = (r, s')"
      by (cases "convert_material p (Some mat) g (Some k) s")
    show ?thesis
    proof (cases r)
      case (Inl e)
      with Some c show ?thesis by simp
    next
      case (Inr res)
      with Some c Cons.IH show ?thesis by (cases res) simp_all
    qed
  qed
qed

lemma convert_objects_append:
  "convert_objects p g (pre @ rest) converted s =
     (case convert_objects p g pre converted s of
        (Inl e, s') \<Rightarrow> (Inl e, s')
      | (Inr converted', s') \<Rightarrow> convert_objects p g rest converted' s')"
proof (induction pre arbitrary: converted s)
  case Nil
  then show ?case by simp
next
  case (Cons k pre)
  show ?case
  proof (cases "k < length (objects s) \<and> material_slots (objects s ! k) = None")
    case True
    with Cons.IH show ?thesis by simp
  next
    case False
    obtain r s' where c: "convert_object_materials p (Some k) g s = (r, s')"
      by (cases "convert_object_materials p (Some k) g s")
    with False Cons.IH show ?thesis by (cases r) auto
  qed
qed

lemma upt_split: "i < n \<Longrightarrow> [0..<n] = [0..<i] @ i # [Suc i..<n]"
  by (metis le_add1 less_imp_add_positive plus_nat.add_0 upt_add_eq_append upt_conv_Cons)

text \<open>
  Whatever exception \<open>convert_material\<close> raises for the material of a slot (the first
  slot where it raises), \<open>convert_object_materials\<close> raises it in the state the failing
  conversion left, and so do \<open>convert_scene_materials\<close> for the first such object and,
  caught there, the operator.
\<close>

lemma batch_raises:
  assumes k: "k < length (objects s0)"
    and before: "convert_objects p g [0..<k] [] (reset_cache s0) = (Inr converted0, s)"
    and ks: "k < length (objects s)"
    and slots: "material_slots (objects s ! k) = Some slots"
    and i: "i < length slots"
    and pre: "convert_slots p k g [0..<i] [] s = (Inr converted, s1)"
    and mat: "slot_material s1 k i = Some mat"
    and err: "convert_material p (Some mat) g (Some k) s1 = (Inl e, s2)"
  shows "convert_object_materials p (Some k) g s = (Inl e, s2)"
    and "convert_scene_materials p g s0 = (Inl e, s2)"
    and "execute p MODE_ALL active g s0 = (CANCELLED, s2)"
proof -
  show obj: "convert_object_materials p (Some k) g s = (Inl e, s2)"
    by (simp add: convert_object_materials_def ks slots upt_split [OF i]
        convert_slots_append pre mat err)
  have n: "length (objects (reset_cache s0)) = length (objects s0)"
    by (simp add: reset_cache_def)
  show scene: "convert_scene_materials p g s0 = (Inl e, s2)"
    by (simp add: convert_scene_materials_def Let_def n upt_split [OF k]
        convert_objects_append before ks slots obj)
  show "execute p MODE_ALL active g s0 = (CANCELLED, s2)"
    by (simp add: execute_def scene)
qed

lemma batch_state_facts:
  "0 < length (objects batch_state)"
  "convert_objects node_walk_pipeline g [0..<0] [] (reset_cache batch_state) = (Inr [], batch_state)"
  "material_slots (objects batch_state ! 0) = Some [Some 2, Some 0, Some 1]"
  "convert_slots node_walk_pipeline 0 g [0..<1] [] batch_state = (Inr [], batch_state)"
  "slot_material batch_state 0 1 = Some 0"
  by (simp_all add: batch_state_def reset_cache_def slot_material_def convert_material_def)

lemma batch_state_glass_raises:
  "convert_material node_walk_pipeline (Some 0) g (Some 0) batch_state
     = (Inl TypeError, snd (convert_material node_walk_pipeline (Some 0) g (Some 0) batch_state))"
proof -
  obtain analysis where a: "analyze_tree node_walk_pipeline simple_tree = Inr analysis"
    using analyze_simple_tree by blast
  have m0: "map_of (materials batch_state) 0
      = Some \<lparr>mat_name = ''Glass'', mat_node_tree = Some simple_tree, use_nodes = True\<rparr>"
    and c0: "cache batch_state = []"
    by (simp_all add: batch_state_def)
  have t: "mat_node_tree \<lparr>mat_name = ''Glass'', mat_node_tree = Some simple_tree,
      use_nodes = True\<rparr> = Some simple_tree" by simp
  have "fst (convert_material node_walk_pipeline (Some 0) g (Some 0) batch_state) = Inl TypeError"
    by (rule convert_material_raises(1) [OF m0 t c0 a])
  then show ?thesis by (metis prod.collapse)
qed

text \<open>
  Claim C2. An error raised while one material is converted should be caught at that
  material's boundary, the material skipped and the batch continued. Neither
  \<open>convert_object_materials\<close> nor \<open>convert_scene_materials\<close> has a guard around
  \<open>convert_material\<close>: in the example scene, whose object has the slots \<open>Legacy\<close>,
  \<open>Glass\<close>, \<open>Metal\<close>, the conversion of \<open>Glass\<close> raises and both batch functions
  raise with it. \<open>Metal\<close> is never converted: the one material added is the copy of
  \<open>Glass\<close>, and the slots are as they were.
\<close>

theorem convert_object_materials_aborts:
  "fst (convert_object_materials node_walk_pipeline (Some 0) (11/5) batch_state) = Inl TypeError
   \<and> map fst (materials (snd (convert_object_materials node_walk_pipeline (Some 0) (11/5)
        batch_state))) = [0, 1, 2, 3]
   \<and> map_of (materials (snd (convert_object_materials node_walk_pipeline (Some 0) (11/5)
        batch_state))) 1
       = Some \<lparr>mat_name = ''Metal'', mat_node_tree = Some simple_tree, use_nodes = True\<rparr>
   \<and> map_option mat_name (map_of (materials (snd (convert_object_materials node_walk_pipeline
        (Some 0) (11/5) batch_state))) 3) = Some ''Glass_OCTANE''
   \<and> material_slots (objects (snd (convert_object_materials node_walk_pipeline (Some 0) (11/5)
        batch_state)) ! 0) = Some [Some 2, Some 0, Some 1]
   \<and> convert_scene_materials node_walk_pipeline (11/5) batch_state
       = convert_object_materials node_walk_pipeline (Some 0) (11/5) batch_state"
proof -
  have i: "1 < length [Some 2, Some 0, Some (1::nat)]" by simp
  obtain analysis where a: "analyze_tree node_walk_pipeline simple_tree = Inr analysis"
    using analyze_simple_tree by blast
  have m0: "map_of (materials batch_state) 0
      = Some \<lparr>mat_name = ''Glass'', mat_node_tree = Some simple_tree, use_nodes = True\<rparr>"
    and c0: "cache batch_state = []"
    by (simp_all add: batch_state_def)
  have t: "mat_node_tree \<lparr>mat_name = ''Glass'', mat_node_tree = Some simple_tree,
      use_nodes = True\<rparr> = Some simple_tree" by simp
  note r = convert_material_raises [OF m0 t c0 a, where gamma = "11/5" and obj = "Some 0"]
  have f0: "fresh_handle batch_state = 3"
    by (simp add: fresh_handle_def batch_state_def)
  have keys: "map fst (materials (snd (convert_material node_walk_pipeline (Some 0) (11/5)
      (Some 0) batch_state))) = [0, 1, 2, 3]"
    using r(4) unfolding f0 by (simp add: batch_state_def)
  have objs: "objects (snd (convert_material node_walk_pipeline (Some 0) (11/5)
      (Some 0) batch_state)) = objects batch_state"
    using r(3) by simp
  have metal: "map_of (materials (snd (convert_material node_walk_pipeline (Some 0) (11/5)
      (Some 0) batch_state))) 1
      = Some \<lparr>mat_name = ''Metal'', mat_node_tree = Some simple_tree, use_nodes = True\<rparr>"
  proof -
    have m1: "map_of (materials batch_state) 1
        = Some \<lparr>mat_name = ''Metal'', mat_node_tree = Some simple_tree, use_nodes = True\<rparr>"
      by (simp add: batch_state_def)
    have "(1::nat) \<noteq> fresh_handle batch_state" by (simp add: f0)
    from r(5) [OF this] m1 show ?thesis by simp
  qed
  have nc: "\<not> has_material (cache batch_state) (mat_name \<lparr>mat_name = ''Glass'',
      mat_node_tree = Some simple_tree, use_nodes = True\<rparr>)"
    by (simp add: has_material_def c0)
  have copy: "map_option mat_name (map_of (materials (snd (convert_material node_walk_pipeline
      (Some 0) (11/5) (Some 0) batch_state))) 3) = Some ''Glass_OCTANE''"
  proof -
    have "map_of (materials batch_state) 3 = None" by (simp add: batch_state_def)
    then show ?thesis
      by (simp add: convert_material_uncached [OF m0 t nc a] f0 map_of_update_material
          map_add_def)
  qed
  note b = batch_raises(1,2) [OF batch_state_facts(1,2) batch_state_facts(1)
      batch_state_facts(3) i batch_state_facts(4,5) batch_state_glass_raises, where g = "11/5"]
  have slots: "material_slots (objects (snd (convert_material node_walk_pipeline (Some 0) (11/5)
      (Some 0) batch_state)) ! 0) = Some [Some 2, Some 0, Some 1]"
    unfolding objs by (rule batch_state_facts(3))
  show ?thesis
    unfolding b fst_conv snd_conv
    by (intro conjI refl keys metal copy slots)
qed

end
